theory Spec2Isabelle
  imports Complex_Main "HOL-Library.AList"
begin

section \<open>Values, attribute dictionaries and errors\<close>

text \<open>
  The module \<^verbatim>\<open>eventsourcing/domain/model/entity.py\<close> works on Python objects whose
  state is their \<^verbatim>\<open>__dict__\<close>. A value is one of the kinds of object that the module
  stores or compares: \<^verbatim>\<open>None\<close>, a \<^verbatim>\<open>bool\<close>, an unbounded \<^verbatim>\<open>int\<close>, a finite
  \<^verbatim>\<open>Decimal\<close> (a rational), a \<^verbatim>\<open>str\<close>, or a \<^verbatim>\<open>UUID\<close> (its number).
\<close>

datatype pyval = VNone | VBool bool | VInt int | VDec rat | VStr string | VUUID nat

text \<open>Python's numeric tower: \<^verbatim>\<open>True == 1 == Decimal(1)\<close>.\<close>

fun num_val :: "pyval \<Rightarrow> rat option" where
  "num_val (VBool b) = Some (if b then 1 else 0)"
| "num_val (VInt n) = Some (of_int n)"
| "num_val (VDec d) = Some d"
| "num_val _ = None"

text \<open>\<^verbatim>\<open>a == b\<close> on values.\<close>

definition py_eq :: "pyval \<Rightarrow> pyval \<Rightarrow> bool" where
  "py_eq a b =
     (case num_val a of
        Some x \<Rightarrow> (case num_val b of Some y \<Rightarrow> x = y | None \<Rightarrow> False)
      | None \<Rightarrow> (case num_val b of Some y \<Rightarrow> False | None \<Rightarrow> a = b))"

text \<open>Truth value of an object, as \<^verbatim>\<open>if x:\<close> and \<^verbatim>\<open>x or y\<close> take it.\<close>

fun truthy :: "pyval \<Rightarrow> bool" where
  "truthy VNone = False"
| "truthy (VBool b) = b"
| "truthy (VInt n) = (n \<noteq> 0)"
| "truthy (VDec d) = (d \<noteq> 0)"
| "truthy (VStr s) = (s \<noteq> [])"
| "truthy (VUUID u) = True"

text \<open>
  A \<^verbatim>\<open>__dict__\<close> or a \<^verbatim>\<open>**kwargs\<close> mapping is an association list with distinct
  keys, in insertion order: \<^const>\<open>map_of\<close> reads, \<^const>\<open>AList.update\<close> assigns,
  \<^const>\<open>AList.delete\<close> pops.
\<close>

type_synonym pydict = "(string \<times> pyval) list"

text \<open>
  \<^verbatim>\<open>d1 == d2\<close> on dictionaries: every key of either is a key of both, with equal
  values; order is ignored.
\<close>

definition dict_eq :: "pydict \<Rightarrow> pydict \<Rightarrow> bool" where
  "dict_eq d1 d2 =
     list_all
       (\<lambda>k. case map_of d1 k of
              None \<Rightarrow> False
            | Some v \<Rightarrow> (case map_of d2 k of None \<Rightarrow> False | Some w \<Rightarrow> py_eq v w))
       (map fst d1 @ map fst d2)"

text \<open>
  The entity classes of the module that declare events, and the kinds of event each one
  declares as nested classes. \<^verbatim>\<open>TimeuuidedEntity\<close> and \<^verbatim>\<open>TimeuuidedVersionedEntity\<close>
  declare no event class and no mutation of their own and are left out.
\<close>

datatype entity_class =
  DomainEntity | EntityWithHashchain | VersionedEntity | TimestampedEntity
  | TimestampedVersionedEntity

datatype event_kind = Event | Created | AttributeChanged | Discarded

text \<open>\<open>EventClass c k\<close> is the nested class \<^verbatim>\<open>c.k\<close>, for example
  \<^verbatim>\<open>VersionedEntity.Discarded\<close>.\<close>

datatype event_class = EventClass entity_class event_kind

record entity =
  ent_type :: entity_class
  ent_dict :: pydict

record event =
  ev_type :: event_class
  ev_dict :: pydict

text \<open>
  The exceptions the module raises, with the values they are built from, and the
  exceptions of the interpreter that its statements can raise.
  \<^item> \<open>OriginatorIDError a b\<close>: the message is formatted from \<^verbatim>\<open>obj.id\<close> and
    \<^verbatim>\<open>self.originator_id\<close>.
  \<^item> \<open>HeadHashError i h t\<close>: \<^verbatim>\<open>HeadHashError(obj.id, obj.__head__, type(self))\<close>.
  \<^item> \<open>OriginatorVersionError v w k c i\<close>: the message is formatted from
    \<^verbatim>\<open>self.originator_version\<close>, \<^verbatim>\<open>obj.__version__\<close>, \<^verbatim>\<open>type(self).__name__\<close>,
    \<^verbatim>\<open>type(obj).__name__\<close> and \<^verbatim>\<open>obj._id\<close>.
\<close>

datatype error =
  AssertionError
  | OriginatorIDError pyval pyval
  | HeadHashError pyval pyval event_class
  | OriginatorVersionError pyval pyval event_kind entity_class pyval
  | EntityIsDiscarded
  | TypeError
  | KeyError string
  | AttributeError string
  | TopicResolutionError string

text \<open>Reading an attribute or a key that may be missing.\<close>

definition getattr :: "pydict \<Rightarrow> string \<Rightarrow> error + pyval" where
  "getattr d name = (case map_of d name of None \<Rightarrow> Inl (AttributeError name) | Some v \<Rightarrow> Inr v)"

definition getitem :: "pydict \<Rightarrow> string \<Rightarrow> error + pyval" where
  "getitem d key = (case map_of d key of None \<Rightarrow> Inl (KeyError key) | Some v \<Rightarrow> Inr v)"

text \<open>\<^verbatim>\<open>d.get(key)\<close>: \<^verbatim>\<open>None\<close> when the key is missing.\<close>

definition dict_get :: "pydict \<Rightarrow> string \<Rightarrow> pyval" where
  "dict_get d key = (case map_of d key of None \<Rightarrow> VNone | Some v \<Rightarrow> v)"

text \<open>\<^verbatim>\<open>setattr(obj, name, value)\<close> on an entity.\<close>

definition setattr :: "entity \<Rightarrow> string \<Rightarrow> pyval \<Rightarrow> entity" where
  "setattr obj name v = obj\<lparr>ent_dict := AList.update name v (ent_dict obj)\<rparr>"

text \<open>
  What the module gets from outside:
  \<^item> \<open>hash_object\<close>: the hashing collaborator, which gives the digest of an event's fields;
  \<^item> \<open>subscriber\<close>: the subscribers of the publish/subscribe bus, which handle an event
    or raise (\<open>Some e\<close>): "any failure raised by a subscriber propagates to the caller";
  \<^item> \<open>decimal_add1\<close>: \<^verbatim>\<open>d + 1\<close> of Python's \<^verbatim>\<open>decimal\<close> module on a \<^verbatim>\<open>Decimal\<close>,
    which rounds to the precision of the context in force and can raise; the module itself
    only adds 1 to a version, and the versions it makes are \<^verbatim>\<open>int\<close>.
\<close>

record env =
  hash_object :: "pydict \<Rightarrow> pyval"
  subscriber :: "event \<Rightarrow> error option"
  decimal_add1 :: "rat \<Rightarrow> error + rat"

text \<open>
  \<^verbatim>\<open>x + 1\<close>: exact on \<^verbatim>\<open>int\<close> and \<^verbatim>\<open>bool\<close>, the addition of the \<^verbatim>\<open>decimal\<close> module
  on a \<^verbatim>\<open>Decimal\<close>, a \<^verbatim>\<open>TypeError\<close> on anything else.
\<close>

fun py_add1 :: "env \<Rightarrow> pyval \<Rightarrow> error + pyval" where
  "py_add1 E (VBool b) = Inr (VInt ((if b then 1 else 0) + 1))"
| "py_add1 E (VInt n) = Inr (VInt (n + 1))"
| "py_add1 E (VDec d) = (case decimal_add1 E d of Inl e \<Rightarrow> Inl e | Inr d' \<Rightarrow> Inr (VDec d'))"
| "py_add1 E _ = Inl TypeError"

section \<open>Entities: attributes and construction\<close>

text \<open>
  The properties without a setter that each entity class declares or inherits
  (\<^verbatim>\<open>id\<close>, \<^verbatim>\<open>__version__\<close>, \<^verbatim>\<open>__created_on__\<close>, \<^verbatim>\<open>__last_modified__\<close>).
  Assigning to one of them raises \<^verbatim>\<open>AttributeError\<close>.
\<close>

fun is_versioned :: "entity_class \<Rightarrow> bool" where
  "is_versioned VersionedEntity = True"
| "is_versioned TimestampedVersionedEntity = True"
| "is_versioned _ = False"

fun is_timestamped :: "entity_class \<Rightarrow> bool" where
  "is_timestamped TimestampedEntity = True"
| "is_timestamped TimestampedVersionedEntity = True"
| "is_timestamped _ = False"

definition properties :: "entity_class \<Rightarrow> string list" where
  "properties c =
     [''id''] @ (if is_versioned c then [''__version__''] else [])
       @ (if is_timestamped c then [''__created_on__'', ''__last_modified__''] else [])"

text \<open>
  \<^verbatim>\<open>setattr(obj, self.name, self.value)\<close> of \<^verbatim>\<open>AttributeChanged.__mutate__\<close>, on an
  entity: the name must be a string; a property without a setter and \<^verbatim>\<open>__weakref__\<close>
  refuse the assignment; \<^verbatim>\<open>__class__\<close> and \<^verbatim>\<open>__dict__\<close> refuse a value that is not a
  class or a dictionary (no value of \<^typ>\<open>pyval\<close> is); any other name is stored in the
  instance dictionary.
\<close>

definition py_setattr :: "entity \<Rightarrow> pyval \<Rightarrow> pyval \<Rightarrow> error + entity" where
  "py_setattr obj name v =
     (case name of
        VStr n \<Rightarrow>
          if n \<in> set (properties (ent_type obj)) \<or> n = ''__weakref__'' then Inl (AttributeError n)
          else if n = ''__class__'' \<or> n = ''__dict__'' then Inl TypeError
          else Inr (setattr obj n v)
      | _ \<Rightarrow> Inl TypeError)"

text \<open>
  Calling a method or reading a nested class through the instance
  (\<^verbatim>\<open>self.__mutate__(event)\<close>, \<^verbatim>\<open>self.Discarded\<close>): an entry of that name in the instance
  dictionary shadows the class attribute, and no value of \<^typ>\<open>pyval\<close> is callable.
\<close>

definition shadowed :: "entity \<Rightarrow> string \<Rightarrow> bool" where
  "shadowed obj name = (map_of (ent_dict obj) name \<noteq> None)"

text \<open>\<^verbatim>\<open>obj.id\<close> (the property returns \<^verbatim>\<open>self._id\<close>).\<close>

definition get_id :: "entity \<Rightarrow> error + pyval" where
  "get_id obj = getattr (ent_dict obj) ''_id''"

text \<open>
  \<^verbatim>\<open>obj.__version__\<close>: the property of \<^verbatim>\<open>VersionedEntity\<close> returns
  \<^verbatim>\<open>self.___version__\<close>; on another class it is an ordinary attribute lookup.
\<close>

definition get_version :: "entity \<Rightarrow> error + pyval" where
  "get_version obj =
     (if is_versioned (ent_type obj) then getattr (ent_dict obj) ''___version__''
      else getattr (ent_dict obj) ''__version__'')"

text \<open>\<^verbatim>\<open>obj.__created_on__\<close> and \<^verbatim>\<open>obj.__last_modified__\<close> of \<^verbatim>\<open>TimestampedEntity\<close>.\<close>

definition get_created_on :: "entity \<Rightarrow> error + pyval" where
  "get_created_on obj =
     (if is_timestamped (ent_type obj) then getattr (ent_dict obj) ''___created_on__''
      else getattr (ent_dict obj) ''__created_on__'')"

definition get_last_modified :: "entity \<Rightarrow> error + pyval" where
  "get_last_modified obj =
     (if is_timestamped (ent_type obj) then getattr (ent_dict obj) ''___last_modified__''
      else getattr (ent_dict obj) ''__last_modified__'')"

text \<open>
  Modelled from the spec: \<^verbatim>\<open>GENESIS_HASH\<close>, a constant of \<^verbatim>\<open>events.py\<close>, which is not
  among the sources: "a fixed genesis constant for a newly created entity". No class of
  the module overrides \<^verbatim>\<open>__genesis_hash__\<close>.
\<close>

definition GENESIS_HASH :: pyval where
  "GENESIS_HASH = VStr []"

text \<open>
  The method resolution order of each entity class, restricted to the classes that define
  \<^verbatim>\<open>__init__\<close> (\<^verbatim>\<open>TimestampedVersionedEntity(TimestampedEntity, VersionedEntity)\<close>
  defines none).
\<close>

fun init_mro :: "entity_class \<Rightarrow> entity_class list" where
  "init_mro DomainEntity = [DomainEntity]"
| "init_mro EntityWithHashchain = [EntityWithHashchain, DomainEntity]"
| "init_mro VersionedEntity = [VersionedEntity, DomainEntity]"
| "init_mro TimestampedEntity = [TimestampedEntity, DomainEntity]"
| "init_mro TimestampedVersionedEntity = [TimestampedEntity, VersionedEntity, DomainEntity]"

text \<open>
  \<open>init_from cs kwargs d\<close> runs the \<^verbatim>\<open>__init__\<close> of the first class of \<open>cs\<close> on the
  instance dictionary \<open>d\<close>, with the rest of \<open>cs\<close> as what \<^verbatim>\<open>super()\<close> reaches.
  A missing or an unexpected keyword argument is a \<^verbatim>\<open>TypeError\<close>.
\<close>

fun init_from :: "entity_class list \<Rightarrow> pydict \<Rightarrow> pydict \<Rightarrow> error + pydict" where
  "init_from [] kwargs d = (if kwargs = [] then Inr d else Inl TypeError)"
| "init_from (DomainEntity # cs) kwargs d =
     (case map_of kwargs ''id'' of
        None \<Rightarrow> Inl TypeError
      | Some i \<Rightarrow>
          if AList.delete ''id'' kwargs \<noteq> [] then Inl TypeError
          else Inr (AList.update ''__is_discarded__'' (VBool False) (AList.update ''_id'' i d)))"
| "init_from (EntityWithHashchain # cs) kwargs d =
     (case init_from cs kwargs d of
        Inl e \<Rightarrow> Inl e
      | Inr d' \<Rightarrow> Inr (AList.update ''__head__'' GENESIS_HASH d'))"
| "init_from (VersionedEntity # cs) kwargs d =
     (case map_of kwargs ''__version__'' of
        None \<Rightarrow> Inl TypeError
      | Some v \<Rightarrow>
          (case init_from cs (AList.delete ''__version__'' kwargs) d of
             Inl e \<Rightarrow> Inl e
           | Inr d' \<Rightarrow> Inr (AList.update ''___version__'' v d')))"
| "init_from (TimestampedEntity # cs) kwargs d =
     (case map_of kwargs ''__created_on__'' of
        None \<Rightarrow> Inl TypeError
      | Some t \<Rightarrow>
          (case init_from cs (AList.delete ''__created_on__'' kwargs) d of
             Inl e \<Rightarrow> Inl e
           | Inr d' \<Rightarrow>
               Inr (AList.update ''___last_modified__'' t (AList.update ''___created_on__'' t d'))))"
| "init_from (TimestampedVersionedEntity # cs) kwargs d = init_from cs kwargs d"

text \<open>\<^verbatim>\<open>entity_class(**kwargs)\<close>.\<close>

definition construct :: "entity_class \<Rightarrow> pydict \<Rightarrow> error + entity" where
  "construct c kwargs =
     (case init_from (init_mro c) kwargs [] of
        Inl e \<Rightarrow> Inl e
      | Inr d \<Rightarrow> Inr \<lparr>ent_type = c, ent_dict = d\<rparr>)"

text \<open>\<^verbatim>\<open>DomainEntity.__eq__\<close>: the same type and equal instance dictionaries.\<close>

definition entity_eq :: "entity \<Rightarrow> entity \<Rightarrow> bool" where
  "entity_eq a b = (ent_type a = ent_type b \<and> dict_eq (ent_dict a) (ent_dict b))"


section \<open>Event classes\<close>

text \<open>
  Every class in the hierarchy of the event classes: the nested classes of the entity
  classes (\<open>Nested c k\<close> is \<^verbatim>\<open>c.k\<close>) and the classes of \<^verbatim>\<open>events.py\<close> they derive from.
\<close>

datatype klass =
  Nested entity_class event_kind
  | EventWithHash | EventWithOriginatorID | EventWithOriginatorVersion | EventWithTimestamp
  | events_Created | events_AttributeChanged | events_Discarded
  | DomainEvent

text \<open>
  The method resolution order of each event class: the C3 linearisation of the bases that
  its \<^verbatim>\<open>class\<close> statement lists. \<^verbatim>\<open>super(K, self).m\<close> is the first definition of \<open>m\<close>
  after \<open>K\<close> in the order of \<^verbatim>\<open>type(self)\<close>.
\<close>

fun mro :: "event_class \<Rightarrow> klass list" where
  "mro (EventClass DomainEntity Event) =
     [Nested DomainEntity Event,
      EventWithOriginatorID,
      DomainEvent]"
| "mro (EventClass DomainEntity Created) =
     [Nested DomainEntity Created,
      Nested DomainEntity Event,
      EventWithOriginatorID,
      events_Created,
      DomainEvent]"
| "mro (EventClass DomainEntity AttributeChanged) =
     [Nested DomainEntity AttributeChanged,
      Nested DomainEntity Event,
      EventWithOriginatorID,
      events_AttributeChanged,
      DomainEvent]"
| "mro (EventClass DomainEntity Discarded) =
     [Nested DomainEntity Discarded,
      events_Discarded,
      Nested DomainEntity Event,
      EventWithOriginatorID,
      DomainEvent]"
| "mro (EventClass EntityWithHashchain Event) =
     [Nested EntityWithHashchain Event,
      EventWithHash,
      Nested DomainEntity Event,
      EventWithOriginatorID,
      DomainEvent]"
| "mro (EventClass EntityWithHashchain Created) =
     [Nested EntityWithHashchain Created,
      Nested EntityWithHashchain Event,
      EventWithHash,
      Nested DomainEntity Created,
      Nested DomainEntity Event,
      EventWithOriginatorID,
      events_Created,
      DomainEvent]"
| "mro (EventClass EntityWithHashchain AttributeChanged) =
     [Nested EntityWithHashchain AttributeChanged,
      Nested EntityWithHashchain Event,
      EventWithHash,
      Nested DomainEntity AttributeChanged,
      Nested DomainEntity Event,
      EventWithOriginatorID,
      events_AttributeChanged,
      DomainEvent]"
| "mro (EventClass EntityWithHashchain Discarded) =
     [Nested EntityWithHashchain Discarded,
      Nested EntityWithHashchain Event,
      EventWithHash,
      Nested DomainEntity Discarded,
      events_Discarded,
      Nested DomainEntity Event,
      EventWithOriginatorID,
      DomainEvent]"
| "mro (EventClass VersionedEntity Event) =
     [Nested VersionedEntity Event,
      EventWithOriginatorVersion,
      Nested DomainEntity Event,
      EventWithOriginatorID,
      DomainEvent]"
| "mro (EventClass VersionedEntity Created) =
     [Nested VersionedEntity Created,
      Nested DomainEntity Created,
      Nested VersionedEntity Event,
      EventWithOriginatorVersion,
      Nested DomainEntity Event,
      EventWithOriginatorID,
      events_Created,
      DomainEvent]"
| "mro (EventClass VersionedEntity AttributeChanged) =
     [Nested VersionedEntity AttributeChanged,
      Nested VersionedEntity Event,
      EventWithOriginatorVersion,
      Nested DomainEntity AttributeChanged,
      Nested DomainEntity Event,
      EventWithOriginatorID,
      events_AttributeChanged,
      DomainEvent]"
| "mro (EventClass VersionedEntity Discarded) =
     [Nested VersionedEntity Discarded,
      Nested VersionedEntity Event,
      EventWithOriginatorVersion,
      Nested DomainEntity Discarded,
      events_Discarded,
      Nested DomainEntity Event,
      EventWithOriginatorID,
      DomainEvent]"
| "mro (EventClass TimestampedEntity Event) =
     [Nested TimestampedEntity Event,
      Nested DomainEntity Event,
      EventWithOriginatorID,
      EventWithTimestamp,
      DomainEvent]"
| "mro (EventClass TimestampedEntity Created) =
     [Nested TimestampedEntity Created,
      Nested DomainEntity Created,
      Nested TimestampedEntity Event,
      Nested DomainEntity Event,
      EventWithOriginatorID,
      events_Created,
      EventWithTimestamp,
      DomainEvent]"
| "mro (EventClass TimestampedEntity AttributeChanged) =
     [Nested TimestampedEntity AttributeChanged,
      Nested TimestampedEntity Event,
      Nested DomainEntity AttributeChanged,
      Nested DomainEntity Event,
      EventWithOriginatorID,
      EventWithTimestamp,
      events_AttributeChanged,
      DomainEvent]"
| "mro (EventClass TimestampedEntity Discarded) =
     [Nested TimestampedEntity Discarded,
      Nested TimestampedEntity Event,
      Nested DomainEntity Discarded,
      events_Discarded,
      Nested DomainEntity Event,
      EventWithOriginatorID,
      EventWithTimestamp,
      DomainEvent]"
| "mro (EventClass TimestampedVersionedEntity Event) =
     [Nested TimestampedVersionedEntity Event,
      Nested TimestampedEntity Event,
      Nested VersionedEntity Event,
      EventWithOriginatorVersion,
      Nested DomainEntity Event,
      EventWithOriginatorID,
      EventWithTimestamp,
      DomainEvent]"
| "mro (EventClass TimestampedVersionedEntity Created) =
     [Nested TimestampedVersionedEntity Created,
      Nested TimestampedEntity Created,
      Nested VersionedEntity Created,
      Nested DomainEntity Created,
      Nested TimestampedVersionedEntity Event,
      Nested TimestampedEntity Event,
      Nested VersionedEntity Event,
      EventWithOriginatorVersion,
      Nested DomainEntity Event,
      EventWithOriginatorID,
      events_Created,
      EventWithTimestamp,
      DomainEvent]"
| "mro (EventClass TimestampedVersionedEntity AttributeChanged) =
     [Nested TimestampedVersionedEntity AttributeChanged,
      Nested TimestampedVersionedEntity Event,
      Nested TimestampedEntity AttributeChanged,
      Nested TimestampedEntity Event,
      Nested VersionedEntity AttributeChanged,
      Nested VersionedEntity Event,
      EventWithOriginatorVersion,
      Nested DomainEntity AttributeChanged,
      Nested DomainEntity Event,
      EventWithOriginatorID,
      EventWithTimestamp,
      events_AttributeChanged,
      DomainEvent]"
| "mro (EventClass TimestampedVersionedEntity Discarded) =
     [Nested TimestampedVersionedEntity Discarded,
      Nested TimestampedVersionedEntity Event,
      Nested TimestampedEntity Discarded,
      Nested TimestampedEntity Event,
      Nested VersionedEntity Discarded,
      Nested VersionedEntity Event,
      EventWithOriginatorVersion,
      Nested DomainEntity Discarded,
      events_Discarded,
      Nested DomainEntity Event,
      EventWithOriginatorID,
      EventWithTimestamp,
      DomainEvent]"

text \<open>Whether a class is among the bases of an event class.\<close>

definition derives :: "event_class \<Rightarrow> klass \<Rightarrow> bool" where
  "derives ec k = (k \<in> set (mro ec))"

fun class_name :: "entity_class \<Rightarrow> string" where
  "class_name DomainEntity = ''DomainEntity''"
| "class_name EntityWithHashchain = ''EntityWithHashchain''"
| "class_name VersionedEntity = ''VersionedEntity''"
| "class_name TimestampedEntity = ''TimestampedEntity''"
| "class_name TimestampedVersionedEntity = ''TimestampedVersionedEntity''"

fun kind_name :: "event_kind \<Rightarrow> string" where
  "kind_name Event = ''Event''"
| "kind_name Created = ''Created''"
| "kind_name AttributeChanged = ''AttributeChanged''"
| "kind_name Discarded = ''Discarded''"

fun kind_of :: "event_class \<Rightarrow> event_kind" where
  "kind_of (EventClass c k) = k"

fun owner_of :: "event_class \<Rightarrow> entity_class" where
  "owner_of (EventClass c k) = c"

text \<open>
  Modelled from the spec: \<^verbatim>\<open>get_topic\<close> and \<^verbatim>\<open>resolve_topic\<close> of \<^verbatim>\<open>utils/topic.py\<close>,
  which is not among the sources: "a mapping from a string identifier to a concrete entity
  (or event) type", with the contract \<^verbatim>\<open>resolve(topic) -> type\<close>,
  \<^verbatim>\<open>getTopic(type) -> string\<close>. The identifier is the module path and the qualified
  name of the class.
\<close>

definition get_topic :: "entity_class \<Rightarrow> string" where
  "get_topic c = ''eventsourcing.domain.model.entity#'' @ class_name c"

definition get_event_topic :: "event_class \<Rightarrow> string" where
  "get_event_topic ec =
     ''eventsourcing.domain.model.entity#'' @ class_name (owner_of ec) @ ''.'' @ kind_name (kind_of ec)"

definition all_classes :: "entity_class list" where
  "all_classes =
     [DomainEntity, EntityWithHashchain, VersionedEntity, TimestampedEntity,
      TimestampedVersionedEntity]"

definition resolve_topic :: "pyval \<Rightarrow> error + entity_class" where
  "resolve_topic t =
     (case t of
        VStr s \<Rightarrow>
          (case find (\<lambda>c. get_topic c = s) all_classes of
             None \<Rightarrow> Inl (TopicResolutionError s)
           | Some c \<Rightarrow> Inr c)
      | _ \<Rightarrow> Inl TypeError)"

text \<open>
  \<^verbatim>\<open>VersionedEntity.Created.__init__\<close> gives \<^verbatim>\<open>originator_version\<close> the default 0.
\<close>

definition default_version :: "event_class \<Rightarrow> pydict \<Rightarrow> pydict" where
  "default_version ec kwargs =
     (if derives ec (Nested VersionedEntity Created) \<and> map_of kwargs ''originator_version'' = None
      then AList.update ''originator_version'' (VInt 0) kwargs else kwargs)"

text \<open>
  Modelled from the spec: \<^verbatim>\<open>EventWithTimestamp.__init__\<close> of \<^verbatim>\<open>events.py\<close>, which is
  not among the sources: the event carries \<^verbatim>\<open>timestamp\<close>, the current time \<open>now\<close>
  unless one is given.
\<close>

definition stamp_timestamp :: "pyval \<Rightarrow> event_class \<Rightarrow> pydict \<Rightarrow> pydict" where
  "stamp_timestamp now ec kwargs =
     (if derives ec EventWithTimestamp
      then AList.update ''timestamp''
             (if truthy (dict_get kwargs ''timestamp'') then dict_get kwargs ''timestamp'' else now)
             kwargs
      else kwargs)"

text \<open>
  Modelled from the spec: \<^verbatim>\<open>EventWithHash.__init__\<close> of \<^verbatim>\<open>events.py\<close>, which is not
  among the sources: the event carries an event-kind tag and \<^verbatim>\<open>eventHash\<close>, "the event's
  own deterministic digest, computed by an external hashing collaborator over its canonical
  field set"; the collaborator is \<open>hash_object\<close> of the environment.
\<close>

definition stamp_hash :: "env \<Rightarrow> event_class \<Rightarrow> pydict \<Rightarrow> pydict" where
  "stamp_hash E ec kwargs =
     (if derives ec EventWithHash
      then (let d = AList.update ''__event_topic__'' (VStr (get_event_topic ec)) kwargs
            in AList.update ''__event_hash__'' (hash_object E d) d)
      else kwargs)"

text \<open>
  Modelled from the spec: the constructors of the event classes of \<^verbatim>\<open>events.py\<close>, which
  is not among the sources. An event is an "immutable record" of the keyword arguments it
  is constructed with: \<^verbatim>\<open>originatorId\<close> always, \<^verbatim>\<open>originatorVersion\<close> under the version
  extension, and what the timestamp and hash-chain extensions stamp. One step is in the
  sources: \<^verbatim>\<open>DomainEntity.Created.__init__\<close> requires \<^verbatim>\<open>originator_topic\<close>. A required
  argument that is missing is a \<^verbatim>\<open>TypeError\<close>.
\<close>

definition new_event :: "env \<Rightarrow> pyval \<Rightarrow> event_class \<Rightarrow> pydict \<Rightarrow> error + event" where
  "new_event E now ec kwargs =
     (let kw1 = default_version ec kwargs
      in if derives ec (Nested DomainEntity Created) \<and> map_of kw1 ''originator_topic'' = None
         then Inl TypeError
         else if map_of kw1 ''originator_id'' = None then Inl TypeError
         else if derives ec EventWithOriginatorVersion \<and> map_of kw1 ''originator_version'' = None
         then Inl TypeError
         else Inr \<lparr>ev_type = ec,
                   ev_dict = stamp_hash E ec (stamp_timestamp now ec kw1)\<rparr>)"

section \<open>The fields an entity is constructed from\<close>

text \<open>\<^verbatim>\<open>kwargs[new] = kwargs.pop(old)\<close>: a \<^verbatim>\<open>KeyError\<close> when \<open>old\<close> is missing.\<close>

definition pop_rename :: "string \<Rightarrow> string \<Rightarrow> pydict \<Rightarrow> error + pydict" where
  "pop_rename old new kwargs =
     (case map_of kwargs old of
        None \<Rightarrow> Inl (KeyError old)
      | Some v \<Rightarrow> Inr (AList.update new v (AList.delete old kwargs)))"

text \<open>
  \<^verbatim>\<open>DomainEntity.Created.__entity_kwargs__\<close>: a copy of the event's \<^verbatim>\<open>__dict__\<close> with
  \<^verbatim>\<open>originator_id\<close> renamed to \<^verbatim>\<open>id\<close>, without \<^verbatim>\<open>originator_topic\<close> and
  \<^verbatim>\<open>__event_topic__\<close>.
\<close>

definition DomainEntity_Created_entity_kwargs :: "event \<Rightarrow> error + pydict" where
  "DomainEntity_Created_entity_kwargs self =
     (case pop_rename ''originator_id'' ''id'' (ev_dict self) of
        Inl e \<Rightarrow> Inl e
      | Inr kwargs \<Rightarrow>
          Inr (AList.delete ''__event_topic__'' (AList.delete ''originator_topic'' kwargs)))"

text \<open>
  The property \<^verbatim>\<open>__entity_kwargs__\<close>, from the first class of the list that defines it:
  \<^verbatim>\<open>TimestampedEntity.Created\<close>, \<^verbatim>\<open>VersionedEntity.Created\<close> and
  \<^verbatim>\<open>EntityWithHashchain.Created\<close> extend what \<^verbatim>\<open>super()\<close> gives,
  \<^verbatim>\<open>DomainEntity.Created\<close> calls no super method.
\<close>

fun entity_kwargs_from :: "klass list \<Rightarrow> event \<Rightarrow> error + pydict" where
  "entity_kwargs_from [] self = Inl (AttributeError ''__entity_kwargs__'')"
| "entity_kwargs_from (k # ks) self =
     (if k = Nested DomainEntity Created then DomainEntity_Created_entity_kwargs self
      else if k = Nested EntityWithHashchain Created then
        (case entity_kwargs_from ks self of
           Inl e \<Rightarrow> Inl e
         | Inr kwargs \<Rightarrow>
             Inr (AList.delete ''__previous_hash__'' (AList.delete ''__event_hash__'' kwargs)))
      else if k = Nested VersionedEntity Created then
        (case entity_kwargs_from ks self of
           Inl e \<Rightarrow> Inl e
         | Inr kwargs \<Rightarrow> pop_rename ''originator_version'' ''__version__'' kwargs)
      else if k = Nested TimestampedEntity Created then
        (case entity_kwargs_from ks self of
           Inl e \<Rightarrow> Inl e
         | Inr kwargs \<Rightarrow> pop_rename ''timestamp'' ''__created_on__'' kwargs)
      else entity_kwargs_from ks self)"

text \<open>\<^verbatim>\<open>self.__entity_kwargs__\<close>.\<close>

definition entity_kwargs :: "event \<Rightarrow> error + pydict" where
  "entity_kwargs self = entity_kwargs_from (mro (ev_type self)) self"

section \<open>Checks\<close>

text \<open>
  The method \<^verbatim>\<open>__check_obj__\<close> of an event, "Checks state of obj before mutating".
  It reads the object and raises or returns \<^verbatim>\<open>None\<close>; it assigns nothing.
\<close>

text \<open>
  \<^verbatim>\<open>DomainEntity.Event.__check_obj__\<close>: the assertion that \<open>obj\<close> is not
  \<^verbatim>\<open>None\<close>, then the comparison of \<^verbatim>\<open>obj.id\<close> with \<^verbatim>\<open>self.originator_id\<close>
  (the property of \<^verbatim>\<open>EventWithOriginatorID\<close> reads the event's \<^verbatim>\<open>__dict__\<close>).
\<close>

definition DomainEntity_Event_check_obj :: "event \<Rightarrow> entity option \<Rightarrow> error + unit" where
  "DomainEntity_Event_check_obj self obj =
     (case obj of
        None \<Rightarrow> Inl AssertionError
      | Some ob \<Rightarrow>
          (case get_id ob of
             Inl e \<Rightarrow> Inl e
           | Inr i \<Rightarrow>
               (case getitem (ev_dict self) ''originator_id'' of
                  Inl e \<Rightarrow> Inl e
                | Inr oid \<Rightarrow> if \<not> py_eq i oid then Inl (OriginatorIDError i oid) else Inr ())))"

text \<open>
  \<^verbatim>\<open>EntityWithHashchain.Event.__check_obj__\<close>, after the call of the super method
  (whose result is \<open>r\<close>) has returned.
\<close>

definition EntityWithHashchain_Event_check_obj ::
  "error + unit \<Rightarrow> event \<Rightarrow> entity option \<Rightarrow> error + unit" where
  "EntityWithHashchain_Event_check_obj r self obj =
     (case r of
        Inl e \<Rightarrow> Inl e
      | Inr _ \<Rightarrow>
          (case obj of
             None \<Rightarrow> Inl (AttributeError ''__head__'')
           | Some ob \<Rightarrow>
               (case getattr (ent_dict ob) ''__head__'' of
                  Inl e \<Rightarrow> Inl e
                | Inr h \<Rightarrow>
                    if \<not> py_eq h (dict_get (ev_dict self) ''__previous_hash__'') then
                      (case get_id ob of
                         Inl e \<Rightarrow> Inl e
                       | Inr i \<Rightarrow> Inl (HeadHashError i h (ev_type self)))
                    else Inr ())))"

text \<open>
  \<^verbatim>\<open>VersionedEntity.Event.__check_obj__\<close>, after the call of the super method has
  returned. The comparison evaluates \<^verbatim>\<open>self.originator_version\<close>, then
  \<^verbatim>\<open>obj.__version__ + 1\<close>.
\<close>

definition VersionedEntity_Event_check_obj ::
  "env \<Rightarrow> error + unit \<Rightarrow> event \<Rightarrow> entity option \<Rightarrow> error + unit" where
  "VersionedEntity_Event_check_obj E r self obj =
     (case r of
        Inl e \<Rightarrow> Inl e
      | Inr _ \<Rightarrow>
          (case getitem (ev_dict self) ''originator_version'' of
             Inl e \<Rightarrow> Inl e
           | Inr ov \<Rightarrow>
               (case obj of
                  None \<Rightarrow> Inl (AttributeError ''__version__'')
                | Some ob \<Rightarrow>
                    (case get_version ob of
                       Inl e \<Rightarrow> Inl e
                     | Inr v \<Rightarrow>
                         (case py_add1 E v of
                            Inl e \<Rightarrow> Inl e
                          | Inr v1 \<Rightarrow>
                              if \<not> py_eq ov v1 then
                                (case getattr (ent_dict ob) ''_id'' of
                                   Inl e \<Rightarrow> Inl e
                                 | Inr i \<Rightarrow>
                                     Inl (OriginatorVersionError ov v (kind_of (ev_type self))
                                            (ent_type ob) i))
                              else Inr ())))))"

text \<open>
  \<open>check_from E ks self obj\<close> is \<^verbatim>\<open>__check_obj__\<close> as the first class of \<open>ks\<close> that
  defines it runs it. \<^verbatim>\<open>DomainEntity.Event\<close> does not call the super method.
  Modelled from the spec: \<^verbatim>\<open>DomainEvent.__check_obj__\<close> of \<^verbatim>\<open>events.py\<close>, which is not
  among the sources, checks nothing (the spec names no check below the base event check).
\<close>

fun check_from :: "env \<Rightarrow> klass list \<Rightarrow> event \<Rightarrow> entity option \<Rightarrow> error + unit" where
  "check_from E [] self obj = Inl (AttributeError ''__check_obj__'')"
| "check_from E (k # ks) self obj =
     (if k = Nested DomainEntity Event then DomainEntity_Event_check_obj self obj
      else if k = Nested EntityWithHashchain Event then
        EntityWithHashchain_Event_check_obj (check_from E ks self obj) self obj
      else if k = Nested VersionedEntity Event then
        VersionedEntity_Event_check_obj E (check_from E ks self obj) self obj
      else if k = DomainEvent then Inr ()
      else check_from E ks self obj)"

text \<open>\<^verbatim>\<open>event.__check_obj__(obj)\<close>.\<close>

definition check_obj :: "env \<Rightarrow> event \<Rightarrow> entity option \<Rightarrow> error + unit" where
  "check_obj E self obj = check_from E (mro (ev_type self)) self obj"


section \<open>Mutation\<close>

text \<open>
  What \<^verbatim>\<open>event.__mutate__(obj)\<close> does to the object it is given and what it returns.
  The entity is mutated in place, so an exception does not undo an assignment made before
  it was raised:
  \<^item> \<open>Raised e t\<close>: the exception \<open>e\<close>; \<open>t\<close> is the state the given object is left in
    (\<open>None\<close> when no object was given);
  \<^item> \<open>Returned_None t\<close>: the call returned \<^verbatim>\<open>None\<close>, leaving the given object as \<open>t\<close>;
  \<^item> \<open>Returned ob\<close>: the call returned an object in state \<open>ob\<close>: the given object
    itself when one was given, the entity it constructed otherwise.
\<close>

datatype mres = Raised error "entity option" | Returned_None "entity option" | Returned entity

text \<open>The state of the given object after a statement on the returned object \<open>ob\<close>.\<close>

definition given :: "entity option \<Rightarrow> entity \<Rightarrow> entity option" where
  "given obj ob = (case obj of None \<Rightarrow> None | Some _ \<Rightarrow> Some ob)"

text \<open>
  \<^verbatim>\<open>DomainEntity.Created.__mutate__\<close>. The parameter is annotated \<^verbatim>\<open>Optional[N]\<close>;
  the body takes anything but \<^verbatim>\<open>None\<close> for the class to call
  (\<^verbatim>\<open>cast(MetaDomainEntity, obj)\<close>), so the three kinds of argument are told apart here.
  An entity is not callable: \<^verbatim>\<open>DomainEntity\<close> defines no \<^verbatim>\<open>__call__\<close>.
\<close>

datatype target = TNone | TClass entity_class | TEntity entity

definition Created_mutate :: "event \<Rightarrow> target \<Rightarrow> error + entity" where
  "Created_mutate self obj =
     (case obj of
        TNone \<Rightarrow>
          (case getitem (ev_dict self) ''originator_topic'' of
             Inl e \<Rightarrow> Inl e
           | Inr t \<Rightarrow>
               (case resolve_topic t of
                  Inl e \<Rightarrow> Inl e
                | Inr c \<Rightarrow>
                    (case entity_kwargs self of Inl e \<Rightarrow> Inl e | Inr kwargs \<Rightarrow> construct c kwargs)))
      | TClass c \<Rightarrow>
          (case entity_kwargs self of Inl e \<Rightarrow> Inl e | Inr kwargs \<Rightarrow> construct c kwargs)
      | TEntity ob \<Rightarrow>
          (case entity_kwargs self of Inl e \<Rightarrow> Inl e | Inr kwargs \<Rightarrow> Inl TypeError))"

text \<open>\<^verbatim>\<open>DomainEntity.Created.__mutate__\<close> on an optional entity.\<close>

definition DomainEntity_Created_mutate :: "event \<Rightarrow> entity option \<Rightarrow> mres" where
  "DomainEntity_Created_mutate self obj =
     (case Created_mutate self (case obj of None \<Rightarrow> TNone | Some ob \<Rightarrow> TEntity ob) of
        Inl e \<Rightarrow> Raised e obj
      | Inr new \<Rightarrow> Returned new)"

text \<open>
  Modelled from the spec: \<^verbatim>\<open>DomainEvent.__mutate__\<close> of \<^verbatim>\<open>events.py\<close>, which is not
  among the sources. It is where the chain of \<^verbatim>\<open>super().__mutate__(obj)\<close> calls ends: it
  returns the object it is given, and each class of the module adds its step to what the
  super method returns. No statement of the module calls \<^verbatim>\<open>__check_obj__\<close>, and the
  mutation of a \<^verbatim>\<open>Discarded\<close> event of a hash-chain entity, which assigns the head before
  it calls the super method, would fail the head check if the super method ran it; the
  model puts no call of the check into the mutation.
\<close>

definition DomainEvent_mutate :: "event \<Rightarrow> entity option \<Rightarrow> mres" where
  "DomainEvent_mutate self obj =
     (case obj of None \<Rightarrow> Returned_None None | Some ob \<Rightarrow> Returned ob)"

text \<open>
  \<^verbatim>\<open>DomainEntity.AttributeChanged.__mutate__\<close>, after the call of the super method has
  given \<open>r\<close>. Modelled from the spec: the properties \<^verbatim>\<open>name\<close> and \<^verbatim>\<open>value\<close> of
  \<^verbatim>\<open>events.AttributeChanged\<close> read the event's \<^verbatim>\<open>__dict__\<close>.
\<close>

definition DomainEntity_AttributeChanged_mutate :: "event \<Rightarrow> entity option \<Rightarrow> mres \<Rightarrow> mres" where
  "DomainEntity_AttributeChanged_mutate self obj r =
     (case r of
        Raised e t \<Rightarrow> Raised e t
      | Returned_None t \<Rightarrow>
          (case getitem (ev_dict self) ''name'' of
             Inl e \<Rightarrow> Raised e t
           | Inr n \<Rightarrow>
               (case getitem (ev_dict self) ''value'' of
                  Inl e \<Rightarrow> Raised e t
                | Inr v \<Rightarrow>
                    (case n of VStr s \<Rightarrow> Raised (AttributeError s) t | _ \<Rightarrow> Raised TypeError t)))
      | Returned ob \<Rightarrow>
          (case getitem (ev_dict self) ''name'' of
             Inl e \<Rightarrow> Raised e (given obj ob)
           | Inr n \<Rightarrow>
               (case getitem (ev_dict self) ''value'' of
                  Inl e \<Rightarrow> Raised e (given obj ob)
                | Inr v \<Rightarrow>
                    (case py_setattr ob n v of
                       Inl e \<Rightarrow> Raised e (given obj ob)
                     | Inr ob' \<Rightarrow> Returned ob'))))"

text \<open>
  \<^verbatim>\<open>DomainEntity.Discarded.__mutate__\<close>, after the call of the super method has given
  \<open>r\<close>: the flag is set on the object and \<^verbatim>\<open>None\<close> is returned.
\<close>

definition DomainEntity_Discarded_mutate :: "entity option \<Rightarrow> mres \<Rightarrow> mres" where
  "DomainEntity_Discarded_mutate obj r =
     (case r of
        Raised e t \<Rightarrow> Raised e t
      | Returned_None t \<Rightarrow> Raised (AttributeError ''__is_discarded__'') t
      | Returned ob \<Rightarrow> Returned_None (given obj (setattr ob ''__is_discarded__'' (VBool True))))"

text \<open>
  \<^verbatim>\<open>EntityWithHashchain.Event.__mutate__\<close>, after the call of the super method has given
  \<open>r\<close>. Modelled from the spec: the property \<^verbatim>\<open>__event_hash__\<close> of \<^verbatim>\<open>EventWithHash\<close>
  reads the event's \<^verbatim>\<open>__dict__\<close>, as the module itself reads \<^verbatim>\<open>__previous_hash__\<close>.
\<close>

definition EntityWithHashchain_Event_mutate :: "event \<Rightarrow> mres \<Rightarrow> mres" where
  "EntityWithHashchain_Event_mutate self r =
     (case r of
        Returned ob \<Rightarrow> Returned (setattr ob ''__head__'' (dict_get (ev_dict self) ''__event_hash__''))
      | _ \<Rightarrow> r)"

text \<open>
  \<^verbatim>\<open>EntityWithHashchain.Discarded.__mutate__\<close>, before it calls the super method: the
  head is assigned on the object it is given.
\<close>

definition EntityWithHashchain_Discarded_set_head :: "event \<Rightarrow> entity option \<Rightarrow> error + entity" where
  "EntityWithHashchain_Discarded_set_head self obj =
     (case obj of
        None \<Rightarrow> Inl (AttributeError ''__head__'')
      | Some ob \<Rightarrow> Inr (setattr ob ''__head__'' (dict_get (ev_dict self) ''__event_hash__'')))"

text \<open>
  \<^verbatim>\<open>VersionedEntity.Event.__mutate__\<close>, after the call of the super method has given
  \<open>r\<close>. Modelled from the spec: the property \<^verbatim>\<open>originator_version\<close> of
  \<^verbatim>\<open>EventWithOriginatorVersion\<close> reads the event's \<^verbatim>\<open>__dict__\<close>.
\<close>

definition VersionedEntity_Event_mutate :: "event \<Rightarrow> entity option \<Rightarrow> mres \<Rightarrow> mres" where
  "VersionedEntity_Event_mutate self obj r =
     (case r of
        Returned ob \<Rightarrow>
          (case getitem (ev_dict self) ''originator_version'' of
             Inl e \<Rightarrow> Raised e (given obj ob)
           | Inr v \<Rightarrow> Returned (setattr ob ''___version__'' v))
      | _ \<Rightarrow> r)"

text \<open>
  \<^verbatim>\<open>TimestampedEntity.Event.__mutate__\<close>, after the call of the super method has given
  \<open>r\<close>. Modelled from the spec: the property \<^verbatim>\<open>timestamp\<close> of \<^verbatim>\<open>EventWithTimestamp\<close>
  reads the event's \<^verbatim>\<open>__dict__\<close>.
\<close>

definition TimestampedEntity_Event_mutate :: "event \<Rightarrow> entity option \<Rightarrow> mres \<Rightarrow> mres" where
  "TimestampedEntity_Event_mutate self obj r =
     (case r of
        Returned ob \<Rightarrow>
          if \<not> is_timestamped (ent_type ob) then Raised AssertionError (given obj ob)
          else
            (case getitem (ev_dict self) ''timestamp'' of
               Inl e \<Rightarrow> Raised e (given obj ob)
             | Inr t \<Rightarrow> Returned (setattr ob ''___last_modified__'' t))
      | _ \<Rightarrow> r)"

text \<open>
  \<open>mutate_from ks self obj\<close> is \<^verbatim>\<open>__mutate__\<close> as the first class of \<open>ks\<close> that
  defines it runs it, the rest of \<open>ks\<close> being what \<^verbatim>\<open>super()\<close> reaches.
  \<^verbatim>\<open>DomainEntity.Created.__mutate__\<close> calls no super method;
  \<^verbatim>\<open>EntityWithHashchain.Created.__mutate__\<close> only returns what the super method returns.
  Modelled from the spec: \<^verbatim>\<open>EventWithHash.__mutate__\<close>, if \<^verbatim>\<open>events.py\<close> defines one,
  adds no step of its own (the spec gives the hash-chain extension one check and one
  mutation, both in the sources).
\<close>

fun mutate_from :: "klass list \<Rightarrow> event \<Rightarrow> entity option \<Rightarrow> mres" where
  "mutate_from [] self obj = Raised (AttributeError ''__mutate__'') obj"
| "mutate_from (k # ks) self obj =
     (if k = DomainEvent then DomainEvent_mutate self obj
      else if k = Nested DomainEntity Created then DomainEntity_Created_mutate self obj
      else if k = Nested DomainEntity AttributeChanged then
        DomainEntity_AttributeChanged_mutate self obj (mutate_from ks self obj)
      else if k = Nested DomainEntity Discarded then
        DomainEntity_Discarded_mutate obj (mutate_from ks self obj)
      else if k = Nested EntityWithHashchain Event then
        EntityWithHashchain_Event_mutate self (mutate_from ks self obj)
      else if k = Nested EntityWithHashchain Discarded then
        (case EntityWithHashchain_Discarded_set_head self obj of
           Inl e \<Rightarrow> Raised e obj
         | Inr ob \<Rightarrow> mutate_from ks self (Some ob))
      else if k = Nested VersionedEntity Event then
        VersionedEntity_Event_mutate self obj (mutate_from ks self obj)
      else if k = Nested TimestampedEntity Event then
        TimestampedEntity_Event_mutate self obj (mutate_from ks self obj)
      else mutate_from ks self obj)"

text \<open>\<^verbatim>\<open>event.__mutate__(obj)\<close>.\<close>

definition event_mutate :: "event \<Rightarrow> entity option \<Rightarrow> mres" where
  "event_mutate self obj = mutate_from (mro (ev_type self)) self obj"


section \<open>Creating, triggering, discarding, publishing\<close>

text \<open>
  The state the methods of an entity work on: the entity and the events handed to the
  publish collaborator so far, oldest first.
\<close>

type_synonym 'a outcome = "(error + 'a) \<times> entity \<times> event list"

text \<open>The state the entity \<open>self\<close> is in after \<^verbatim>\<open>event.__mutate__(self)\<close> gave \<open>r\<close>.\<close>

fun state_after :: "entity \<Rightarrow> mres \<Rightarrow> entity" where
  "state_after self (Raised e (Some ob)) = ob"
| "state_after self (Returned_None (Some ob)) = ob"
| "state_after self (Returned ob) = ob"
| "state_after self _ = self"

text \<open>\<^verbatim>\<open>entity.__mutate__(event)\<close>: the event mutates the entity; nothing is returned.\<close>

definition entity_mutate :: "entity \<Rightarrow> event \<Rightarrow> (error + unit) \<times> entity" where
  "entity_mutate self ev =
     (if shadowed self ''__mutate__'' then (Inl TypeError, self)
      else case event_mutate ev (Some self) of
        Raised e t \<Rightarrow> (Inl e, state_after self (Raised e t))
      | r \<Rightarrow> (Inr (), state_after self r))"

text \<open>
  \<^verbatim>\<open>DomainEntity.__publish__\<close>, which calls \<^verbatim>\<open>self.__publish_to_subscribers__\<close>,
  which calls \<^verbatim>\<open>publish\<close>.
  Modelled from the spec: \<^verbatim>\<open>publish\<close> of \<^verbatim>\<open>events.py\<close>, which is not among the
  sources: "forwards to the external publish collaborator; synchronous", and "any failure
  raised by a subscriber propagates to the caller uncaught". The event is recorded as
  handed over, then the subscribers run, and what they raise is raised.
\<close>

definition publish :: "env \<Rightarrow> entity \<Rightarrow> event \<Rightarrow> event list \<Rightarrow> (error + unit) \<times> event list" where
  "publish E self ev pubs =
     (if shadowed self ''__publish__'' \<or> shadowed self ''__publish_to_subscribers__''
      then (Inl TypeError, pubs)
      else (case subscriber E ev of None \<Rightarrow> Inr () | Some e \<Rightarrow> Inl e, pubs @ [ev]))"

text \<open>
  The argument \<^verbatim>\<open>event_class\<close> of \<^verbatim>\<open>__trigger_event__\<close>: an event class, or (when
  an instance attribute shadows the nested class that \<^verbatim>\<open>__discard__\<close> and
  \<^verbatim>\<open>__change_attribute__\<close> read through \<^verbatim>\<open>self\<close>) an object that is not a class.
\<close>

datatype event_class_arg = Class event_class | NotAClass

text \<open>
  \<^verbatim>\<open>DomainEntity.__trigger_event__\<close>: the guard, the construction of the event with
  \<^verbatim>\<open>originator_id=self._id\<close> (a keyword given twice is a \<^verbatim>\<open>TypeError\<close>), the mutation
  through \<^verbatim>\<open>self.__mutate__\<close>, which calls \<^verbatim>\<open>event.__mutate__(self)\<close>, and the
  publication. \<open>now\<close> is the reading of the clock.
\<close>

definition DomainEntity_trigger_event ::
  "env \<Rightarrow> pyval \<Rightarrow> entity \<Rightarrow> event_class_arg \<Rightarrow> pydict \<Rightarrow> event list \<Rightarrow> unit outcome" where
  "DomainEntity_trigger_event E now self eca kwargs pubs =
     (if shadowed self ''__assert_not_discarded__'' then (Inl TypeError, self, pubs)
      else
        (case getattr (ent_dict self) ''__is_discarded__'' of
           Inl e \<Rightarrow> (Inl e, self, pubs)
         | Inr flag \<Rightarrow>
             if truthy flag then (Inl EntityIsDiscarded, self, pubs)
             else
               (case getattr (ent_dict self) ''_id'' of
                  Inl e \<Rightarrow> (Inl e, self, pubs)
                | Inr i \<Rightarrow>
                    (case eca of
                       NotAClass \<Rightarrow> (Inl TypeError, self, pubs)
                     | Class ec \<Rightarrow>
                         if map_of kwargs ''originator_id'' \<noteq> None then (Inl TypeError, self, pubs)
                         else
                           (case new_event E now ec ((''originator_id'', i) # kwargs) of
                              Inl e \<Rightarrow> (Inl e, self, pubs)
                            | Inr ev \<Rightarrow>
                                (case entity_mutate self ev of
                                   (Inl e, self') \<Rightarrow> (Inl e, self', pubs)
                                 | (Inr u, self') \<Rightarrow>
                                     (case publish E self' ev pubs of
                                        (r, pubs') \<Rightarrow> (r, self', pubs'))))))))"

text \<open>
  \<^verbatim>\<open>EntityWithHashchain.__trigger_event__\<close>: the assertion that the argument is a
  class, \<^verbatim>\<open>kwargs["__previous_hash__"] = self.__head__\<close>, then the super method.
\<close>

definition EntityWithHashchain_trigger_event ::
  "env \<Rightarrow> pyval \<Rightarrow> entity \<Rightarrow> event_class_arg \<Rightarrow> pydict \<Rightarrow> event list \<Rightarrow> unit outcome" where
  "EntityWithHashchain_trigger_event E now self eca kwargs pubs =
     (if eca = NotAClass then (Inl AssertionError, self, pubs)
      else case getattr (ent_dict self) ''__head__'' of
        Inl e \<Rightarrow> (Inl e, self, pubs)
      | Inr h \<Rightarrow>
          DomainEntity_trigger_event E now self eca
            (AList.update ''__previous_hash__'' h kwargs) pubs)"

text \<open>
  \<^verbatim>\<open>VersionedEntity.__trigger_event__\<close>: the super method, called with
  \<^verbatim>\<open>originator_version=self.__version__ + 1\<close> and \<^verbatim>\<open>**kwargs\<close>.
\<close>

definition VersionedEntity_trigger_event ::
  "env \<Rightarrow> pyval \<Rightarrow> entity \<Rightarrow> event_class_arg \<Rightarrow> pydict \<Rightarrow> event list \<Rightarrow> unit outcome" where
  "VersionedEntity_trigger_event E now self eca kwargs pubs =
     (case get_version self of
        Inl e \<Rightarrow> (Inl e, self, pubs)
      | Inr v \<Rightarrow>
          (case py_add1 E v of
             Inl e \<Rightarrow> (Inl e, self, pubs)
           | Inr v1 \<Rightarrow>
               if map_of kwargs ''originator_version'' \<noteq> None then (Inl TypeError, self, pubs)
               else DomainEntity_trigger_event E now self eca
                      ((''originator_version'', v1) # kwargs) pubs))"

text \<open>
  \<^verbatim>\<open>entity.__trigger_event__(event_class, **kwargs)\<close>: the method that the class of the
  entity resolves to (\<^verbatim>\<open>TimestampedEntity\<close> inherits the base method,
  \<^verbatim>\<open>TimestampedVersionedEntity\<close> the one of \<^verbatim>\<open>VersionedEntity\<close>).
\<close>

definition trigger_event_arg ::
  "env \<Rightarrow> pyval \<Rightarrow> entity \<Rightarrow> event_class_arg \<Rightarrow> pydict \<Rightarrow> event list \<Rightarrow> unit outcome" where
  "trigger_event_arg E now self eca kwargs pubs =
     (if shadowed self ''__trigger_event__'' then (Inl TypeError, self, pubs)
      else if ent_type self = EntityWithHashchain then
        EntityWithHashchain_trigger_event E now self eca kwargs pubs
      else if is_versioned (ent_type self) then
        VersionedEntity_trigger_event E now self eca kwargs pubs
      else DomainEntity_trigger_event E now self eca kwargs pubs)"

definition trigger_event ::
  "env \<Rightarrow> pyval \<Rightarrow> entity \<Rightarrow> event_class \<Rightarrow> pydict \<Rightarrow> event list \<Rightarrow> unit outcome" where
  "trigger_event E now self ec kwargs pubs = trigger_event_arg E now self (Class ec) kwargs pubs"

text \<open>\<^verbatim>\<open>self.Discarded\<close>, \<^verbatim>\<open>self.AttributeChanged\<close>: the nested class of the entity's
  class, unless an instance attribute of that name shadows it.\<close>

definition nested_class :: "entity \<Rightarrow> event_kind \<Rightarrow> event_class_arg" where
  "nested_class self k =
     (if shadowed self (kind_name k) then NotAClass else Class (EventClass (ent_type self) k))"

text \<open>\<^verbatim>\<open>DomainEntity.__discard__\<close>.\<close>

definition discard :: "env \<Rightarrow> pyval \<Rightarrow> entity \<Rightarrow> event list \<Rightarrow> unit outcome" where
  "discard E now self pubs =
     (if shadowed self ''__discard__'' then (Inl TypeError, self, pubs)
      else trigger_event_arg E now self (nested_class self Discarded) [] pubs)"

text \<open>\<^verbatim>\<open>DomainEntity.__change_attribute__\<close>.\<close>

definition change_attribute ::
  "env \<Rightarrow> pyval \<Rightarrow> entity \<Rightarrow> pyval \<Rightarrow> pyval \<Rightarrow> event list \<Rightarrow> unit outcome" where
  "change_attribute E now self name v pubs =
     (if shadowed self ''__change_attribute__'' then (Inl TypeError, self, pubs)
      else trigger_event_arg E now self (nested_class self AttributeChanged)
             [(''name'', name), (''value'', v)] pubs)"

text \<open>
  \<^verbatim>\<open>DomainEntity.__create__\<close>, a class method: \<open>cls\<close> is the class it is called on,
  \<open>originator_id\<close> and \<open>event_class\<close> are its two named parameters (\<^verbatim>\<open>None\<close> by
  default), \<open>uuid4\<close> is what \<^verbatim>\<open>uuid4()\<close> would return. A keyword that is given twice
  is a \<^verbatim>\<open>TypeError\<close>.
\<close>

definition DomainEntity_create ::
  "env \<Rightarrow> pyval \<Rightarrow> pyval \<Rightarrow> entity_class \<Rightarrow> pyval \<Rightarrow> event_class option \<Rightarrow> pydict
     \<Rightarrow> event list \<Rightarrow> (error + entity) \<times> event list" where
  "DomainEntity_create E now uuid4 cls originator_id event_class kwargs pubs =
     (if map_of kwargs ''originator_id'' \<noteq> None \<or> map_of kwargs ''event_class'' \<noteq> None
         \<or> map_of kwargs ''originator_topic'' \<noteq> None
      then (Inl TypeError, pubs)
      else
        (let oid = (if originator_id = VNone then uuid4 else originator_id);
             ec = (case event_class of None \<Rightarrow> EventClass cls Created | Some c \<Rightarrow> c)
         in case new_event E now ec
                   ((''originator_id'', oid) # (''originator_topic'', VStr (get_topic cls)) # kwargs) of
              Inl e \<Rightarrow> (Inl e, pubs)
            | Inr ev \<Rightarrow>
                (case event_mutate ev None of
                   Raised e t \<Rightarrow> (Inl e, pubs)
                 | Returned_None t \<Rightarrow> (Inl AssertionError, pubs)
                 | Returned ob \<Rightarrow>
                     (case publish E ob ev pubs of
                        (Inl e, pubs') \<Rightarrow> (Inl e, pubs')
                      | (Inr u, pubs') \<Rightarrow> (Inr ob, pubs')))))"

text \<open>
  \<^verbatim>\<open>cls.__create__(originator_id, event_class, **kwargs)\<close>:
  \<^verbatim>\<open>EntityWithHashchain.__create__\<close> sets \<^verbatim>\<open>kwargs["__previous_hash__"]\<close> to the genesis
  hash of the class and calls the super method; the other classes inherit the base method.
\<close>

definition create ::
  "env \<Rightarrow> pyval \<Rightarrow> pyval \<Rightarrow> entity_class \<Rightarrow> pyval \<Rightarrow> event_class option \<Rightarrow> pydict
     \<Rightarrow> event list \<Rightarrow> (error + entity) \<times> event list" where
  "create E now uuid4 cls originator_id event_class kwargs pubs =
     (if cls = EntityWithHashchain then
        DomainEntity_create E now uuid4 cls originator_id event_class
          (AList.update ''__previous_hash__'' GENESIS_HASH kwargs) pubs
      else DomainEntity_create E now uuid4 cls originator_id event_class kwargs pubs)"

section \<open>Histories\<close>

text \<open>
  A call of \<^verbatim>\<open>__trigger_event__\<close>: the event class, the keyword arguments and the
  reading of the clock at the call. \<open>trigger_all\<close> makes the calls in order and stops
  at the first one that raises.
\<close>

datatype call = Trigger event_class pydict pyval

fun trigger_all :: "env \<Rightarrow> call list \<Rightarrow> entity \<Rightarrow> event list \<Rightarrow> unit outcome" where
  "trigger_all E [] self pubs = (Inr (), self, pubs)"
| "trigger_all E (Trigger ec kwargs now # cs) self pubs =
     (case trigger_event E now self ec kwargs pubs of
        (Inl e, self', pubs') \<Rightarrow> (Inl e, self', pubs')
      | (Inr u, self', pubs') \<Rightarrow> trigger_all E cs self' pubs')"

text \<open>
  Replay, in the words of the spec: "the mutation path with no live target", the first
  event applied to \<^verbatim>\<open>None\<close>, each later event to what the one before returned.
\<close>

fun replay_from :: "event list \<Rightarrow> entity option \<Rightarrow> error + entity option" where
  "replay_from [] obj = Inr obj"
| "replay_from (ev # evs) obj =
     (case event_mutate ev obj of
        Raised e t \<Rightarrow> Inl e
      | Returned_None t \<Rightarrow> replay_from evs None
      | Returned ob \<Rightarrow> replay_from evs (Some ob))"

definition replay :: "event list \<Rightarrow> error + entity option" where
  "replay evs = replay_from evs None"

section \<open>An environment for the examples\<close>

text \<open>
  The environment of the examples: a hashing collaborator that gives the same digest for
  every event, no subscriber that raises, and exact addition on \<^verbatim>\<open>Decimal\<close> values (no
  example adds 1 to one).
\<close>

definition quiet :: env where
  "quiet = \<lparr>hash_object = (\<lambda>d. VStr ''digest''), subscriber = (\<lambda>ev. None),
            decimal_add1 = (\<lambda>d. Inr (d + 1))\<rparr>"

section \<open>The extensions of an event class, in the order its bases give\<close>

text \<open>
  What the method resolution order of the event classes of an entity class \<open>c\<close> amounts
  to: the checks that follow the base check, and the steps that the \<^verbatim>\<open>__mutate__\<close> of
  the \<^verbatim>\<open>Event\<close> classes add to the result \<open>r\<close> of the mutation they wrap. Both are only
  used to state what \<^const>\<open>check_obj\<close> and \<^const>\<open>event_mutate\<close> compute; the lemmas
  of the next section derive them from \<^const>\<open>mro\<close>.
\<close>

fun extension_mutate :: "entity_class \<Rightarrow> event \<Rightarrow> entity option \<Rightarrow> mres \<Rightarrow> mres" where
  "extension_mutate DomainEntity self obj r = r"
| "extension_mutate EntityWithHashchain self obj r = EntityWithHashchain_Event_mutate self r"
| "extension_mutate VersionedEntity self obj r = VersionedEntity_Event_mutate self obj r"
| "extension_mutate TimestampedEntity self obj r = TimestampedEntity_Event_mutate self obj r"
| "extension_mutate TimestampedVersionedEntity self obj r =
     TimestampedEntity_Event_mutate self obj (VersionedEntity_Event_mutate self obj r)"

fun extension_check ::
  "env \<Rightarrow> entity_class \<Rightarrow> event \<Rightarrow> entity option \<Rightarrow> error + unit \<Rightarrow> error + unit" where
  "extension_check E EntityWithHashchain self obj r = EntityWithHashchain_Event_check_obj r self obj"
| "extension_check E VersionedEntity self obj r = VersionedEntity_Event_check_obj E r self obj"
| "extension_check E TimestampedVersionedEntity self obj r =
     VersionedEntity_Event_check_obj E r self obj"
| "extension_check E _ self obj r = r"

section \<open>Dispatch\<close>

lemma check_obj_resolved:
  "check_obj E self obj =
     extension_check E (owner_of (ev_type self)) self obj (DomainEntity_Event_check_obj self obj)"
  by (cases "ev_type self"; rename_tac c k; case_tac c; case_tac k; simp add: check_obj_def)

lemma mutate_Event_resolved:
  "ev_type self = EventClass c Event \<Longrightarrow>
     event_mutate self obj = extension_mutate c self obj (DomainEvent_mutate self obj)"
  by (cases c; simp add: event_mutate_def)

lemma mutate_AttributeChanged_resolved:
  "ev_type self = EventClass c AttributeChanged \<Longrightarrow>
     event_mutate self obj =
       extension_mutate c self obj
         (DomainEntity_AttributeChanged_mutate self obj (DomainEvent_mutate self obj))"
  by (cases c; simp add: event_mutate_def)

lemma mutate_Discarded_resolved:
  "ev_type self = EventClass c Discarded \<Longrightarrow> c \<noteq> EntityWithHashchain \<Longrightarrow>
     event_mutate self obj =
       extension_mutate c self obj (DomainEntity_Discarded_mutate obj (DomainEvent_mutate self obj))"
  by (cases c; simp add: event_mutate_def)

lemma mutate_hashchain_Discarded_resolved:
  "ev_type self = EventClass EntityWithHashchain Discarded \<Longrightarrow>
     event_mutate self obj =
       (case EntityWithHashchain_Discarded_set_head self obj of
          Inl e \<Rightarrow> Raised e obj
        | Inr ob \<Rightarrow>
            EntityWithHashchain_Event_mutate self
              (DomainEntity_Discarded_mutate (Some ob) (DomainEvent_mutate self (Some ob))))"
  by (simp add: event_mutate_def split: sum.splits)

lemma mutate_Created_resolved:
  "ev_type self = EventClass c Created \<Longrightarrow>
     event_mutate self obj =
       (if c = EntityWithHashchain
        then EntityWithHashchain_Event_mutate self (DomainEntity_Created_mutate self obj)
        else DomainEntity_Created_mutate self obj)"
  by (cases c; simp add: event_mutate_def)

lemma derives_versioned:
  "derives ec (Nested VersionedEntity Event) = is_versioned (owner_of ec)"
  by (cases ec; rename_tac c k; case_tac c; case_tac k; simp add: derives_def)

lemma base_check_None: "DomainEntity_Event_check_obj self None = Inl AssertionError"
  by (simp add: DomainEntity_Event_check_obj_def)

lemma base_check_mismatch:
  "map_of (ent_dict ob) ''_id'' = Some i \<Longrightarrow> map_of (ev_dict self) ''originator_id'' = Some oid \<Longrightarrow>
     DomainEntity_Event_check_obj self (Some ob) =
       (if py_eq i oid then Inr () else Inl (OriginatorIDError i oid))"
  by (simp add: DomainEntity_Event_check_obj_def get_id_def getattr_def getitem_def)

lemma extension_check_Inl: "extension_check E c self obj (Inl e) = Inl e"
  by (cases c) (simp_all add: EntityWithHashchain_Event_check_obj_def VersionedEntity_Event_check_obj_def)

lemma extension_mutate_Raised: "extension_mutate c self obj (Raised e t) = Raised e t"
  by (cases c)
     (simp_all add: EntityWithHashchain_Event_mutate_def VersionedEntity_Event_mutate_def
        TimestampedEntity_Event_mutate_def)

section \<open>The head check (C1)\<close>

text \<open>
  C1, as stated, has the application of an event with a stale \<^verbatim>\<open>__previous_hash__\<close>
  fail and leave the entity unchanged. No \<^verbatim>\<open>__mutate__\<close> of the module calls
  \<^verbatim>\<open>__check_obj__\<close>: the entity has the head \<open>h1\<close>, the \<^verbatim>\<open>Discarded\<close> event was made
  against the head \<open>h0\<close> and has the hash \<open>h2\<close>, and its mutation returns, with the head
  advanced to \<open>h2\<close> and the flag set.
\<close>

theorem stale_event_is_applied:
  "event_mutate
     \<lparr>ev_type = EventClass EntityWithHashchain Discarded,
      ev_dict = [(''originator_id'', VUUID 1), (''__previous_hash__'', VStr ''h0''),
                 (''__event_topic__'',
                  VStr ''eventsourcing.domain.model.entity#EntityWithHashchain.Discarded''),
                 (''__event_hash__'', VStr ''h2'')]\<rparr>
     (Some \<lparr>ent_type = EntityWithHashchain,
            ent_dict = [(''_id'', VUUID 1), (''__is_discarded__'', VBool False),
                        (''__head__'', VStr ''h1'')]\<rparr>)
   = Returned_None
       (Some \<lparr>ent_type = EntityWithHashchain,
              ent_dict = [(''_id'', VUUID 1), (''__is_discarded__'', VBool True),
                          (''__head__'', VStr ''h2'')]\<rparr>)"
  by (simp add: mutate_hashchain_Discarded_resolved EntityWithHashchain_Discarded_set_head_def
        setattr_def dict_get_def DomainEvent_mutate_def DomainEntity_Discarded_mutate_def
        EntityWithHashchain_Event_mutate_def given_def)

text \<open>
  C1, amended. For every hash-chain entity and every event of a hash-chain event class that
  is addressed to it (the base check passes), of every kind, \<^verbatim>\<open>Discarded\<close> included: if
  the event's \<^verbatim>\<open>__previous_hash__\<close> differs from the entity's \<^verbatim>\<open>__head__\<close>, the event's
  check \<^verbatim>\<open>__check_obj__\<close> raises \<^verbatim>\<open>HeadHashError\<close> with the entity's id, its current head
  and the event class. The check assigns nothing: it only raises or returns.
\<close>

theorem head_mismatch_raises:
  assumes "owner_of (ev_type self) = EntityWithHashchain"
    and "map_of (ent_dict ob) ''_id'' = Some i"
    and "map_of (ev_dict self) ''originator_id'' = Some oid" and "py_eq i oid"
    and "map_of (ent_dict ob) ''__head__'' = Some h"
    and "\<not> py_eq h (dict_get (ev_dict self) ''__previous_hash__'')"
  shows "check_obj E self (Some ob) = Inl (HeadHashError i h (ev_type self))"
  using assms
  by (simp add: check_obj_resolved base_check_mismatch EntityWithHashchain_Event_check_obj_def
        getattr_def get_id_def)

theorem head_mismatch_raises_witness:
  "check_obj quiet
     \<lparr>ev_type = EventClass EntityWithHashchain Discarded,
      ev_dict = [(''originator_id'', VUUID 1), (''__previous_hash__'', VStr ''h0''),
                 (''__event_topic__'',
                  VStr ''eventsourcing.domain.model.entity#EntityWithHashchain.Discarded''),
                 (''__event_hash__'', VStr ''h2'')]\<rparr>
     (Some \<lparr>ent_type = EntityWithHashchain,
            ent_dict = [(''_id'', VUUID 1), (''__is_discarded__'', VBool False),
                        (''__head__'', VStr ''h1'')]\<rparr>)
   = Inl (HeadHashError (VUUID 1) (VStr ''h1'') (EventClass EntityWithHashchain Discarded))"
  using head_mismatch_raises
    [of "\<lparr>ev_type = EventClass EntityWithHashchain Discarded,
          ev_dict = [(''originator_id'', VUUID 1), (''__previous_hash__'', VStr ''h0''),
                     (''__event_topic__'',
                      VStr ''eventsourcing.domain.model.entity#EntityWithHashchain.Discarded''),
                     (''__event_hash__'', VStr ''h2'')]\<rparr>"
        "\<lparr>ent_type = EntityWithHashchain,
          ent_dict = [(''_id'', VUUID 1), (''__is_discarded__'', VBool False),
                      (''__head__'', VStr ''h1'')]\<rparr>"
        "VUUID 1" "VUUID 1" "VStr ''h1''" quiet]
  by (simp add: py_eq_def dict_get_def)

section \<open>The version check (C6)\<close>

text \<open>
  C6. For a versioned entity and an event of a versioned event class that is addressed to
  it (the base check passes), if the event's \<^verbatim>\<open>originator_version\<close> is not equal to the
  entity's version plus 1, the check raises \<^verbatim>\<open>OriginatorVersionError\<close>, built from the
  version the event takes the entity to, the entity's current version, the name of the
  event class, the type of the entity and the entity's id.
\<close>

theorem version_mismatch_raises:
  assumes "is_versioned (owner_of (ev_type self))"
    and "is_versioned (ent_type obj)"
    and "map_of (ent_dict obj) ''_id'' = Some i"
    and "map_of (ev_dict self) ''originator_id'' = Some oid" and "py_eq i oid"
    and "map_of (ev_dict self) ''originator_version'' = Some ov"
    and "map_of (ent_dict obj) ''___version__'' = Some v"
    and "py_add1 E v = Inr v1"
    and "\<not> py_eq ov v1"
  shows "check_obj E self (Some obj) =
           Inl (OriginatorVersionError ov v (kind_of (ev_type self)) (ent_type obj) i)"
proof -
  have base: "DomainEntity_Event_check_obj self (Some obj) = Inr ()"
    using assms(3-5) by (simp add: base_check_mismatch)
  have "check_obj E self (Some obj) =
          VersionedEntity_Event_check_obj E (Inr ()) self (Some obj)"
    using assms(1) by (cases "owner_of (ev_type self)") (simp_all add: check_obj_resolved base)
  then show ?thesis
    using assms(2,3,6-9)
    by (simp add: VersionedEntity_Event_check_obj_def getitem_def get_version_def getattr_def)
qed

theorem version_mismatch_raises_witness:
  "check_obj quiet
     \<lparr>ev_type = EventClass VersionedEntity AttributeChanged,
      ev_dict = [(''originator_id'', VUUID 1), (''originator_version'', VInt 5),
                 (''name'', VStr ''a''), (''value'', VInt 7)]\<rparr>
     (Some \<lparr>ent_type = VersionedEntity,
            ent_dict = [(''_id'', VUUID 1), (''__is_discarded__'', VBool False),
                        (''___version__'', VInt 0)]\<rparr>) =
   Inl (OriginatorVersionError (VInt 5) (VInt 0) AttributeChanged VersionedEntity (VUUID 1))"
  using version_mismatch_raises
    [of "\<lparr>ev_type = EventClass VersionedEntity AttributeChanged,
          ev_dict = [(''originator_id'', VUUID 1), (''originator_version'', VInt 5),
                     (''name'', VStr ''a''), (''value'', VInt 7)]\<rparr>"
        "\<lparr>ent_type = VersionedEntity,
          ent_dict = [(''_id'', VUUID 1), (''__is_discarded__'', VBool False),
                      (''___version__'', VInt 0)]\<rparr>"
        "VUUID 1" "VUUID 1" "VInt 5" "VInt 0" quiet "VInt 1"]
  by (simp add: py_eq_def)

section \<open>The base check (C9)\<close>

text \<open>
  C9, as stated, has the \<^verbatim>\<open>OriginatorIDError\<close> carry the event kind. The message is
  formatted from the two ids only: an \<^verbatim>\<open>AttributeChanged\<close> and a \<^verbatim>\<open>Discarded\<close> event
  with the same \<^verbatim>\<open>originator_id\<close> raise the same error on the same entity.
\<close>

theorem identity_error_omits_event_kind:
  "check_obj quiet \<lparr>ev_type = EventClass DomainEntity AttributeChanged,
              ev_dict = [(''originator_id'', VUUID 2), (''name'', VStr ''a''), (''value'', VInt 7)]\<rparr>
     (Some \<lparr>ent_type = DomainEntity,
            ent_dict = [(''_id'', VUUID 1), (''__is_discarded__'', VBool False)]\<rparr>)
     = Inl (OriginatorIDError (VUUID 1) (VUUID 2))
   \<and> check_obj quiet \<lparr>ev_type = EventClass DomainEntity Discarded,
                ev_dict = [(''originator_id'', VUUID 2)]\<rparr>
     (Some \<lparr>ent_type = DomainEntity,
            ent_dict = [(''_id'', VUUID 1), (''__is_discarded__'', VBool False)]\<rparr>)
     = Inl (OriginatorIDError (VUUID 1) (VUUID 2))"
  by (simp add: check_obj_resolved DomainEntity_Event_check_obj_def get_id_def getattr_def
        getitem_def py_eq_def)

text \<open>
  C9, amended. For every event, of every class and kind, the base check raises
  \<^verbatim>\<open>AssertionError\<close> on a target that is \<^verbatim>\<open>None\<close>, and on a target whose id differs
  from the event's \<^verbatim>\<open>originator_id\<close> it raises \<^verbatim>\<open>OriginatorIDError\<close>, built from the
  two ids. The check assigns nothing, so it fails before any mutation.
\<close>

theorem identity_check:
  assumes "map_of (ent_dict ob) ''_id'' = Some i"
    and "map_of (ev_dict self) ''originator_id'' = Some oid"
    and "\<not> py_eq i oid"
  shows "check_obj E self None = Inl AssertionError
       \<and> check_obj E self (Some ob) = Inl (OriginatorIDError i oid)"
  using assms
  by (simp add: check_obj_resolved base_check_None base_check_mismatch extension_check_Inl)

theorem identity_check_witness:
  "check_obj quiet
     \<lparr>ev_type = EventClass EntityWithHashchain Discarded,
      ev_dict = [(''originator_id'', VUUID 2), (''__previous_hash__'', VStr ''h1''),
                 (''__event_hash__'', VStr ''h2'')]\<rparr>
     None = Inl AssertionError
   \<and> check_obj quiet
       \<lparr>ev_type = EventClass EntityWithHashchain Discarded,
        ev_dict = [(''originator_id'', VUUID 2), (''__previous_hash__'', VStr ''h1''),
                   (''__event_hash__'', VStr ''h2'')]\<rparr>
       (Some \<lparr>ent_type = EntityWithHashchain,
              ent_dict = [(''_id'', VUUID 1), (''__is_discarded__'', VBool False),
                          (''__head__'', VStr ''h1'')]\<rparr>)
     = Inl (OriginatorIDError (VUUID 1) (VUUID 2))"
  using identity_check
    [of "\<lparr>ent_type = EntityWithHashchain,
          ent_dict = [(''_id'', VUUID 1), (''__is_discarded__'', VBool False),
                      (''__head__'', VStr ''h1'')]\<rparr>"
        "VUUID 1"
        "\<lparr>ev_type = EventClass EntityWithHashchain Discarded,
          ev_dict = [(''originator_id'', VUUID 2), (''__previous_hash__'', VStr ''h1''),
                     (''__event_hash__'', VStr ''h2'')]\<rparr>"
        "VUUID 2" quiet]
  by (simp add: py_eq_def)

section \<open>What the mutation of each kind of event gives\<close>

lemma extension_mutate_Returned_None:
  "extension_mutate c self obj (Returned_None t) = Returned_None t"
  by (cases c)
     (simp_all add: EntityWithHashchain_Event_mutate_def VersionedEntity_Event_mutate_def
        TimestampedEntity_Event_mutate_def)

lemma DomainEvent_mutate_Some: "DomainEvent_mutate self (Some ob) = Returned ob"
  by (simp add: DomainEvent_mutate_def)

lemma DomainEvent_mutate_None: "DomainEvent_mutate self None = Returned_None None"
  by (simp add: DomainEvent_mutate_def)

lemma check_obj_None: "check_obj E self None = Inl AssertionError"
  by (simp add: check_obj_resolved base_check_None extension_check_Inl)

text \<open>What the mutation of a \<^verbatim>\<open>Discarded\<close> event gives on an entity.\<close>

lemma Discarded_mutate_Some:
  assumes "ev_type self = EventClass c Discarded" and "c \<noteq> EntityWithHashchain"
  shows "event_mutate self (Some ob) =
           Returned_None (Some (setattr ob ''__is_discarded__'' (VBool True)))"
  using assms
  by (simp add: mutate_Discarded_resolved DomainEvent_mutate_Some
        DomainEntity_Discarded_mutate_def extension_mutate_Returned_None given_def)

lemma hashchain_Discarded_mutate_Some:
  assumes "ev_type self = EventClass EntityWithHashchain Discarded"
  shows "event_mutate self (Some ob) =
           Returned_None
             (Some (setattr (setattr ob ''__head__'' (dict_get (ev_dict self) ''__event_hash__''))
                      ''__is_discarded__'' (VBool True)))"
  using assms
  by (simp add: mutate_hashchain_Discarded_resolved
        EntityWithHashchain_Discarded_set_head_def DomainEvent_mutate_Some
        DomainEntity_Discarded_mutate_def EntityWithHashchain_Event_mutate_def given_def)

lemma Discarded_mutate_None:
  assumes "kind_of (ev_type self) = Discarded"
  shows "\<exists>e. event_mutate self None = Raised e None"
proof -
  obtain c where ck: "ev_type self = EventClass c Discarded"
    using assms by (cases "ev_type self") auto
  show ?thesis
  proof (cases "c = EntityWithHashchain")
    case False
    then show ?thesis using ck
      by (simp add: mutate_Discarded_resolved DomainEvent_mutate_None
            DomainEntity_Discarded_mutate_def extension_mutate_Raised)
  next
    case True
    then show ?thesis using ck
      by (simp add: mutate_hashchain_Discarded_resolved EntityWithHashchain_Discarded_set_head_def)
  qed
qed

text \<open>A \<^verbatim>\<open>Discarded\<close> event never returns an object, and sets the flag where it returns.\<close>

lemma Discarded_returns_no_object:
  assumes "kind_of (ev_type self) = Discarded"
  shows "event_mutate self obj \<noteq> Returned ob'"
proof -
  obtain c where ck: "ev_type self = EventClass c Discarded"
    using assms by (cases "ev_type self") auto
  show ?thesis
  proof (cases obj)
    case None
    then show ?thesis using Discarded_mutate_None [OF assms] by auto
  next
    case (Some ob)
    show ?thesis
    proof (cases "c = EntityWithHashchain")
      case False
      then show ?thesis using ck Some by (simp add: Discarded_mutate_Some)
    next
      case True
      then show ?thesis using ck Some by (simp add: hashchain_Discarded_mutate_Some)
    qed
  qed
qed


lemma new_event_type: "new_event H now ec kwargs = Inr ev \<Longrightarrow> ev_type ev = ec"
  by (auto simp: new_event_def Let_def split: if_splits)

section \<open>Triggering\<close>

lemma publish_outcome:
  assumes "publish E self ev pubs = (r, pubs')"
  shows "(r = Inl TypeError \<and> pubs' = pubs)
       \<or> (r = (case subscriber E ev of None \<Rightarrow> Inr () | Some e \<Rightarrow> Inl e) \<and> pubs' = pubs @ [ev])"
  using assms by (auto simp: publish_def split: if_splits)

lemma publish_appends: "publish E self ev pubs = (Inr u, pubs') \<Longrightarrow> pubs' = pubs @ [ev]"
  by (auto simp: publish_def split: if_splits)

lemma base_trigger_outcome:
  assumes "DomainEntity_trigger_event E now self eca kwargs pubs = (r, self', pubs')"
  shows "pubs' = pubs
       \<or> (\<exists>ev. pubs' = pubs @ [ev] \<and> entity_mutate self ev = (Inr (), self')
             \<and> r = (case subscriber E ev of None \<Rightarrow> Inr () | Some e \<Rightarrow> Inl e))"
  using assms
  by (auto simp: DomainEntity_trigger_event_def
      split: if_splits sum.splits event_class_arg.splits prod.splits
      dest!: publish_outcome)

lemma base_trigger_success:
  assumes "DomainEntity_trigger_event E now self eca kwargs pubs = (Inr u, self', pubs')"
  shows "\<exists>ec flag i ev.
           eca = Class ec \<and> \<not> shadowed self ''__assert_not_discarded__''
         \<and> map_of (ent_dict self) ''__is_discarded__'' = Some flag \<and> \<not> truthy flag
         \<and> map_of (ent_dict self) ''_id'' = Some i
         \<and> map_of kwargs ''originator_id'' = None
         \<and> new_event E now ec ((''originator_id'', i) # kwargs) = Inr ev
         \<and> entity_mutate self ev = (Inr (), self')
         \<and> publish E self' ev pubs = (Inr (), pubs')"
  using assms
  by (auto simp: DomainEntity_trigger_event_def getattr_def
      split: if_splits sum.splits event_class_arg.splits prod.splits option.splits)

lemma base_trigger_discarded:
  assumes "map_of (ent_dict self) ''__is_discarded__'' = Some flag" and "truthy flag"
  shows "DomainEntity_trigger_event E now self eca kwargs pubs =
           (Inl (if shadowed self ''__assert_not_discarded__'' then TypeError else EntityIsDiscarded),
            self, pubs)"
  using assms by (simp add: DomainEntity_trigger_event_def getattr_def)

text \<open>
  The path of a call of \<^verbatim>\<open>__trigger_event__\<close> to the base method: the keyword
  arguments that the method of the entity's class hands to it.
\<close>

lemma trigger_success:
  assumes "trigger_event_arg E now self eca kwargs pubs = (Inr u, self', pubs')"
  shows "\<not> shadowed self ''__trigger_event__''
       \<and> (\<exists>kwargs'. DomainEntity_trigger_event E now self eca kwargs' pubs = (Inr u, self', pubs')
            \<and> (ent_type self = EntityWithHashchain \<longrightarrow>
                  (\<exists>h. map_of (ent_dict self) ''__head__'' = Some h
                     \<and> kwargs' = AList.update ''__previous_hash__'' h kwargs))
            \<and> (is_versioned (ent_type self) \<longrightarrow>
                  (\<exists>v v1. get_version self = Inr v \<and> py_add1 E v = Inr v1
                     \<and> map_of kwargs ''originator_version'' = None
                     \<and> kwargs' = (''originator_version'', v1) # kwargs))
            \<and> (ent_type self \<noteq> EntityWithHashchain \<and> \<not> is_versioned (ent_type self) \<longrightarrow>
                  kwargs' = kwargs))"
  using assms
  by (auto simp: trigger_event_arg_def EntityWithHashchain_trigger_event_def
        VersionedEntity_trigger_event_def getattr_def
      split: if_splits sum.splits option.splits)

lemma trigger_outcome:
  assumes "trigger_event_arg E now self eca kwargs pubs = (r, self', pubs')"
  shows "pubs' = pubs
       \<or> (\<exists>ev. pubs' = pubs @ [ev] \<and> entity_mutate self ev = (Inr (), self')
             \<and> r = (case subscriber E ev of None \<Rightarrow> Inr () | Some e \<Rightarrow> Inl e))"
  using assms
  by (auto simp: trigger_event_arg_def EntityWithHashchain_trigger_event_def
        VersionedEntity_trigger_event_def
      dest: base_trigger_outcome
      split: if_splits sum.splits)

lemma trigger_discarded_unchanged:
  assumes "map_of (ent_dict self) ''__is_discarded__'' = Some flag" and "truthy flag"
  shows "\<exists>e. trigger_event_arg E now self eca kwargs pubs = (Inl e, self, pubs)"
  using assms
  by (auto simp: trigger_event_arg_def EntityWithHashchain_trigger_event_def
        VersionedEntity_trigger_event_def base_trigger_discarded
      split: if_splits sum.splits)

section \<open>No event is applied through a trigger once the entity is discarded (C3)\<close>

text \<open>
  C3, as stated, has every application path fail on a discarded entity. Only
  \<^verbatim>\<open>__trigger_event__\<close> reads the flag: an \<^verbatim>\<open>AttributeChanged\<close> event applied through
  \<^verbatim>\<open>entity.__mutate__(event)\<close> to an entity whose flag is \<^verbatim>\<open>True\<close> sets the
  attribute.
\<close>

theorem direct_mutation_ignores_discarded_flag:
  "entity_mutate
     \<lparr>ent_type = DomainEntity,
      ent_dict = [(''_id'', VUUID 1), (''__is_discarded__'', VBool True)]\<rparr>
     \<lparr>ev_type = EventClass DomainEntity AttributeChanged,
      ev_dict = [(''originator_id'', VUUID 1), (''name'', VStr ''a''), (''value'', VInt 7)]\<rparr>
   = (Inr (),
      \<lparr>ent_type = DomainEntity,
       ent_dict = [(''_id'', VUUID 1), (''__is_discarded__'', VBool True), (''a'', VInt 7)]\<rparr>)"
  by (simp add: entity_mutate_def shadowed_def mutate_AttributeChanged_resolved
        DomainEvent_mutate_Some getitem_def DomainEntity_AttributeChanged_mutate_def
        py_setattr_def properties_def setattr_def)

text \<open>
  C3, amended. Once the discarded flag of an entity is true, every call of
  \<^verbatim>\<open>__trigger_event__\<close> on it, for every event class and every keyword arguments,
  raises and leaves the entity and the published events as they were.
\<close>

theorem trigger_on_discarded_fails_unchanged:
  assumes "map_of (ent_dict self) ''__is_discarded__'' = Some flag" and "truthy flag"
  shows "\<exists>e. trigger_event H now self ec kwargs pubs = (Inl e, self, pubs)"
  using assms by (simp add: trigger_event_def trigger_discarded_unchanged)

theorem trigger_on_discarded_fails_unchanged_witness:
  "\<exists>e. trigger_event quiet (VDec 9)
          \<lparr>ent_type = TimestampedVersionedEntity,
           ent_dict = [(''_id'', VUUID 1), (''__is_discarded__'', VBool True),
                       (''___version__'', VInt 0), (''___created_on__'', VDec 2),
                       (''___last_modified__'', VDec 2)]\<rparr>
          (EventClass TimestampedVersionedEntity AttributeChanged)
          [(''name'', VStr ''a''), (''value'', VInt 7)] []
        = (Inl e,
           \<lparr>ent_type = TimestampedVersionedEntity,
            ent_dict = [(''_id'', VUUID 1), (''__is_discarded__'', VBool True),
                        (''___version__'', VInt 0), (''___created_on__'', VDec 2),
                        (''___last_modified__'', VDec 2)]\<rparr>, [])"
  using trigger_on_discarded_fails_unchanged
    [of "\<lparr>ent_type = TimestampedVersionedEntity,
           ent_dict = [(''_id'', VUUID 1), (''__is_discarded__'', VBool True),
                       (''___version__'', VInt 0), (''___created_on__'', VDec 2),
                       (''___last_modified__'', VDec 2)]\<rparr>" "VBool True"]
  by simp

section \<open>A trigger publishes after the mutation (C10)\<close>

text \<open>
  C10, as stated, has a trigger that raises for any reason publish nothing. The call of
  \<^verbatim>\<open>__publish__\<close> is the last statement of \<^verbatim>\<open>__trigger_event__\<close>, and what a subscriber
  raises is raised to the caller: with a subscriber that raises, the trigger raises after
  the entity was mutated and the event was handed to the publish collaborator.
\<close>

theorem trigger_raises_after_publication:
  "trigger_event (quiet\<lparr>subscriber := (\<lambda>ev. Some (KeyError ''k''))\<rparr>) VNone
     \<lparr>ent_type = DomainEntity,
      ent_dict = [(''_id'', VUUID 1), (''__is_discarded__'', VBool False)]\<rparr>
     (EventClass DomainEntity AttributeChanged) [(''name'', VStr ''a''), (''value'', VInt 7)] []
   = (Inl (KeyError ''k''),
      \<lparr>ent_type = DomainEntity,
       ent_dict = [(''_id'', VUUID 1), (''__is_discarded__'', VBool False), (''a'', VInt 7)]\<rparr>,
      [\<lparr>ev_type = EventClass DomainEntity AttributeChanged,
        ev_dict = [(''originator_id'', VUUID 1), (''name'', VStr ''a''),
                   (''value'', VInt 7)]\<rparr>])"
  by (simp add: trigger_event_def trigger_event_arg_def DomainEntity_trigger_event_def
        shadowed_def getattr_def new_event_def default_version_def stamp_timestamp_def
        stamp_hash_def derives_def quiet_def entity_mutate_def
        mutate_AttributeChanged_resolved DomainEvent_mutate_Some
        DomainEntity_AttributeChanged_mutate_def getitem_def py_setattr_def properties_def
        setattr_def publish_def)

text \<open>
  C10, amended. For every entity and event class, \<^verbatim>\<open>__trigger_event__\<close> hands the event
  to the publish collaborator only after the mutation of the entity by that event has
  returned without raising: a trigger that raises in the guard, in the construction of the
  event or in the mutation has handed nothing over, and a trigger that raises after the
  event was handed over raises what a subscriber raised. With no subscriber that raises, a
  trigger that raises publishes nothing.
\<close>

theorem publication_follows_mutation:
  assumes "trigger_event E now self ec kwargs pubs = (r, self', pubs')"
  shows "(pubs' = pubs
          \<or> (\<exists>ev. pubs' = pubs @ [ev] \<and> entity_mutate self ev = (Inr (), self')
                \<and> r = (case subscriber E ev of None \<Rightarrow> Inr () | Some e \<Rightarrow> Inl e)))
       \<and> ((\<forall>ev. subscriber E ev = None) \<and> (\<exists>e. r = Inl e) \<longrightarrow> pubs' = pubs)"
proof -
  from assms have "trigger_event_arg E now self (Class ec) kwargs pubs = (r, self', pubs')"
    by (simp add: trigger_event_def)
  from trigger_outcome [OF this] show ?thesis by auto
qed

theorem publication_follows_mutation_witness:
  "trigger_event quiet VNone
     \<lparr>ent_type = DomainEntity,
      ent_dict = [(''_id'', VUUID 1), (''__is_discarded__'', VBool True)]\<rparr>
     (EventClass DomainEntity AttributeChanged) [(''name'', VStr ''a''), (''value'', VInt 7)]
     [\<lparr>ev_type = EventClass DomainEntity Discarded, ev_dict = [(''originator_id'', VUUID 1)]\<rparr>]
   = (Inl EntityIsDiscarded,
      \<lparr>ent_type = DomainEntity,
       ent_dict = [(''_id'', VUUID 1), (''__is_discarded__'', VBool True)]\<rparr>,
      [\<lparr>ev_type = EventClass DomainEntity Discarded, ev_dict = [(''originator_id'', VUUID 1)]\<rparr>])"
proof -
  obtain r s p where t: "trigger_event quiet VNone
     \<lparr>ent_type = DomainEntity,
      ent_dict = [(''_id'', VUUID 1), (''__is_discarded__'', VBool True)]\<rparr>
     (EventClass DomainEntity AttributeChanged) [(''name'', VStr ''a''), (''value'', VInt 7)]
     [\<lparr>ev_type = EventClass DomainEntity Discarded, ev_dict = [(''originator_id'', VUUID 1)]\<rparr>]
     = (r, s, p)" by (metis prod_cases3)
  have rs: "r = Inl EntityIsDiscarded" "s = \<lparr>ent_type = DomainEntity,
      ent_dict = [(''_id'', VUUID 1), (''__is_discarded__'', VBool True)]\<rparr>"
    using t
    by (simp_all add: trigger_event_def trigger_event_arg_def DomainEntity_trigger_event_def
          shadowed_def getattr_def)
  have "p = [\<lparr>ev_type = EventClass DomainEntity Discarded, ev_dict = [(''originator_id'', VUUID 1)]\<rparr>]"
    using publication_follows_mutation [OF t] rs by (simp add: quiet_def)
  with t rs show ?thesis by simp
qed

section \<open>Discarding\<close>

lemma setattr_simps [simp]:
  "ent_type (setattr ob n v) = ent_type ob"
  "map_of (ent_dict (setattr ob n v)) = (map_of (ent_dict ob))(n \<mapsto> v)"
  by (simp_all add: setattr_def update_conv')

lemma entity_mutate_success:
  assumes "entity_mutate self ev = (Inr u, self')"
  shows "\<not> shadowed self ''__mutate__''
       \<and> ((\<exists>t. event_mutate ev (Some self) = Returned_None t \<and> self' = state_after self (Returned_None t))
          \<or> event_mutate ev (Some self) = Returned self')"
  using assms
  by (auto simp: entity_mutate_def split: if_splits mres.splits)

lemma Discarded_entity_mutate:
  assumes "kind_of (ev_type ev) = Discarded" and "entity_mutate self ev = (Inr u, self')"
  shows "\<exists>ob'. (ob' = self \<or> (\<exists>h. ob' = setattr self ''__head__'' h))
            \<and> self' = setattr ob' ''__is_discarded__'' (VBool True)"
proof -
  obtain c where ck: "ev_type ev = EventClass c Discarded"
    using assms(1) by (cases "ev_type ev") auto
  from entity_mutate_success [OF assms(2)] Discarded_returns_no_object [OF assms(1)]
  obtain t where t: "event_mutate ev (Some self) = Returned_None t"
    and s: "self' = state_after self (Returned_None t)" by blast
  show ?thesis
  proof (cases "c = EntityWithHashchain")
    case False
    then show ?thesis using ck t s
      by (auto simp: Discarded_mutate_Some)
  next
    case True
    then show ?thesis using ck t s
      by (auto simp: hashchain_Discarded_mutate_Some)
  qed
qed



section \<open>Terminal discard (C7)\<close>




section \<open>Events that return the entity\<close>

lemma py_setattr_type: "py_setattr ob n v = Inr ob' \<Longrightarrow> ent_type ob' = ent_type ob"
  by (auto simp: py_setattr_def split: pyval.splits if_splits)

text \<open>The extension steps on an object that the wrapped mutation returned.\<close>

lemma extension_mutate_Returned:
  assumes "extension_mutate c self (Some ob0) (Returned ob) = r"
  shows "(\<exists>e t. r = Raised e t) \<or> (\<exists>ob'. r = Returned ob' \<and> ent_type ob' = ent_type ob
            \<and> (is_versioned c \<longrightarrow>
                  map_of (ent_dict ob') ''___version__'' = map_of (ev_dict self) ''originator_version''))"
  using assms
  by (cases c)
     (auto simp: EntityWithHashchain_Event_mutate_def VersionedEntity_Event_mutate_def
        TimestampedEntity_Event_mutate_def given_def getitem_def
        split: option.splits if_splits)

lemma Event_mutate_Some:
  assumes "ev_type self = EventClass c Event"
  shows "event_mutate self (Some ob) = extension_mutate c self (Some ob) (Returned ob)"
  using assms
  by (simp add: mutate_Event_resolved DomainEvent_mutate_Some)

lemma AttributeChanged_mutate_Some:
  assumes "ev_type self = EventClass c AttributeChanged"
  shows "event_mutate self (Some ob) =
           (case getitem (ev_dict self) ''name'' of
              Inl e \<Rightarrow> Raised e (Some ob)
            | Inr n \<Rightarrow>
                (case getitem (ev_dict self) ''value'' of
                   Inl e \<Rightarrow> Raised e (Some ob)
                 | Inr v \<Rightarrow>
                     (case py_setattr ob n v of
                        Inl e \<Rightarrow> Raised e (Some ob)
                      | Inr ob' \<Rightarrow> extension_mutate c self (Some ob) (Returned ob'))))"
  using assms
  by (simp add: mutate_AttributeChanged_resolved DomainEvent_mutate_Some extension_mutate_Raised
        DomainEntity_AttributeChanged_mutate_def given_def split: sum.splits)

lemma Created_mutate_Some:
  assumes "kind_of (ev_type self) = Created"
  shows "\<exists>e. event_mutate self (Some ob) = Raised e (Some ob)"
proof -
  obtain c where ck: "ev_type self = EventClass c Created"
    using assms by (cases "ev_type self") auto
  have "\<exists>e. DomainEntity_Created_mutate self (Some ob) = Raised e (Some ob)"
    by (auto simp: DomainEntity_Created_mutate_def Created_mutate_def split: sum.splits)
  then show ?thesis using ck
    by (auto simp: mutate_Created_resolved EntityWithHashchain_Event_mutate_def)
qed

text \<open>
  The mutation of an \<^verbatim>\<open>Event\<close> or \<^verbatim>\<open>AttributeChanged\<close> event on an entity: the
  extension steps, on what the assignment of the attribute gives.
\<close>

lemma plain_mutate_shape:
  assumes "ev_type ev = EventClass c k" and "k = Event \<or> k = AttributeChanged"
  shows "\<exists>r0. event_mutate ev (Some self) = extension_mutate c ev (Some self) r0
          \<and> ((\<exists>e. r0 = Raised e (Some self))
             \<or> (k = Event \<and> r0 = Returned self)
             \<or> (\<exists>n v ob. k = AttributeChanged \<and> map_of (ev_dict ev) ''name'' = Some n
                   \<and> map_of (ev_dict ev) ''value'' = Some v
                   \<and> py_setattr self n v = Inr ob \<and> r0 = Returned ob))"
proof (cases "k = Event")
  case True
  then show ?thesis using assms(1)
    by (auto simp: Event_mutate_Some)
next
  case False
  then have k: "k = AttributeChanged" using assms(2) by simp
  show ?thesis
  proof (cases "\<exists>n v ob. map_of (ev_dict ev) ''name'' = Some n
                   \<and> map_of (ev_dict ev) ''value'' = Some v \<and> py_setattr self n v = Inr ob")
    case True
    then obtain n v ob where "map_of (ev_dict ev) ''name'' = Some n"
      "map_of (ev_dict ev) ''value'' = Some v" "py_setattr self n v = Inr ob" by blast
    then show ?thesis using assms(1) k
      by (auto simp: AttributeChanged_mutate_Some getitem_def)
  next
    case False
    then have "\<exists>e. event_mutate ev (Some self) = Raised e (Some self)"
      using assms(1) k
      by (auto simp: AttributeChanged_mutate_Some getitem_def split: sum.splits option.splits)
    then show ?thesis
      by (metis extension_mutate_Raised)
  qed
qed

text \<open>
  A versioned event of a kind other than \<^verbatim>\<open>Discarded\<close> that mutates an entity without
  raising returns it, with the version the event carries.
\<close>

lemma versioned_mutate_success:
  assumes "is_versioned (owner_of (ev_type ev))" and "kind_of (ev_type ev) \<noteq> Discarded"
    and "entity_mutate self ev = (Inr u, self')"
  shows "ent_type self' = ent_type self
       \<and> map_of (ent_dict self') ''___version__'' = map_of (ev_dict ev) ''originator_version''"
proof -
  obtain c k where ck: "ev_type ev = EventClass c k" by (cases "ev_type ev") auto
  have v: "is_versioned c" using assms(1) ck by simp
  from entity_mutate_success [OF assms(3)]
  have r: "(\<exists>t. event_mutate ev (Some self) = Returned_None t) \<or> event_mutate ev (Some self) = Returned self'"
    by blast
  have "k \<noteq> Created" using Created_mutate_Some [of ev self] ck r by auto
  then have "k = Event \<or> k = AttributeChanged" using assms(2) ck by (cases k) auto
  from plain_mutate_shape [OF ck this, of self] obtain r0 where
    e: "event_mutate ev (Some self) = extension_mutate c ev (Some self) r0"
    and r0: "(\<exists>e. r0 = Raised e (Some self)) \<or> (\<exists>ob. r0 = Returned ob \<and> ent_type ob = ent_type self)"
    by (auto dest: py_setattr_type)
  from r0 r e obtain ob where ob: "r0 = Returned ob" "ent_type ob = ent_type self"
    by (auto simp: extension_mutate_Raised)
  from extension_mutate_Returned [of c ev self ob "event_mutate ev (Some self)"] e ob r v
  show ?thesis by auto
qed

section \<open>Versions\<close>

lemma new_event_dict:
  "new_event H now ec kwargs = Inr ev \<Longrightarrow>
     ev = \<lparr>ev_type = ec,
           ev_dict = stamp_hash H ec (stamp_timestamp now ec (default_version ec kwargs))\<rparr>"
  by (simp add: new_event_def Let_def split: if_splits)

lemma new_event_keeps:
  assumes "new_event H now ec kwargs = Inr ev" and "map_of kwargs n = Some x"
    and "n \<noteq> ''timestamp''" and "n \<noteq> ''__event_topic__''" and "n \<noteq> ''__event_hash__''"
  shows "map_of (ev_dict ev) n = Some x"
proof -
  have 1: "map_of (default_version ec kwargs) n = Some x"
    using assms(2) by (auto simp: default_version_def update_conv')
  have 2: "map_of (stamp_timestamp now ec (default_version ec kwargs)) n = Some x"
    using 1 assms(3) by (simp add: stamp_timestamp_def update_conv')
  have "map_of (stamp_hash H ec (stamp_timestamp now ec (default_version ec kwargs))) n = Some x"
    using 2 assms(4,5) by (simp add: stamp_hash_def update_conv' Let_def)
  then show ?thesis using new_event_dict [OF assms(1)] by simp
qed

lemma versioned_trigger_step:
  assumes "is_versioned (ent_type self)" and "get_version self = Inr (VInt n)"
    and "is_versioned (owner_of ec)" and "kind_of ec \<noteq> Discarded"
    and "trigger_event H now self ec kwargs pubs = (Inr u, self', pubs')"
  shows "\<exists>ev. pubs' = pubs @ [ev] \<and> ev_type ev = ec
          \<and> map_of (ev_dict ev) ''originator_version'' = Some (VInt (n + 1))
          \<and> get_version self' = Inr (VInt (n + 1)) \<and> ent_type self' = ent_type self"
proof -
  from assms(5) have t: "trigger_event_arg H now self (Class ec) kwargs pubs = (Inr u, self', pubs')"
    by (simp add: trigger_event_def)
  from trigger_success [OF t] assms(1,2) have
    b: "DomainEntity_trigger_event H now self (Class ec) ((''originator_version'', VInt (n + 1)) # kwargs) pubs
          = (Inr u, self', pubs')"
    by auto
  from base_trigger_success [OF b] obtain i ev where
    ne: "new_event H now ec ((''originator_id'', i) # (''originator_version'', VInt (n + 1)) # kwargs) = Inr ev"
    and em: "entity_mutate self ev = (Inr (), self')"
    and pb: "publish H self' ev pubs = (Inr (), pubs')" by auto
  have ty: "ev_type ev = ec" using new_event_type [OF ne] .
  have ov: "map_of (ev_dict ev) ''originator_version'' = Some (VInt (n + 1))"
    using new_event_keeps [OF ne, of "''originator_version''"] by simp
  from versioned_mutate_success [OF _ _ em] assms(3,4) ty
  have "ent_type self' = ent_type self"
    "map_of (ent_dict self') ''___version__'' = map_of (ev_dict ev) ''originator_version''"
    by auto
  with ov assms(1) have "get_version self' = Inr (VInt (n + 1))" "ent_type self' = ent_type self"
    by (auto simp: get_version_def getattr_def)
  with publish_appends [OF pb] ty ov show ?thesis by blast
qed


lemma versioned_trigger_all:
  assumes "list_all (\<lambda>c. case c of Trigger ec kw t \<Rightarrow>
                       is_versioned (owner_of ec) \<and> kind_of ec \<noteq> Discarded) calls"
    and "is_versioned (ent_type self)" and "get_version self = Inr (VInt n)"
    and "trigger_all H calls self pubs = (Inr u, self', pubs')"
  shows "get_version self' = Inr (VInt (n + int (length calls)))
       \<and> ent_type self' = ent_type self
       \<and> (\<exists>evs. pubs' = pubs @ evs \<and> length evs = length calls
             \<and> (\<forall>j < length evs.
                   map_of (ev_dict (evs ! j)) ''originator_version'' = Some (VInt (n + 1 + int j))))"
  using assms
proof (induction calls arbitrary: self pubs n)
  case Nil
  then show ?case by simp
next
  case (Cons c calls)
  obtain ec kw t where c: "c = Trigger ec kw t" by (cases c) auto
  from Cons.prems(4) c obtain s1 p1 where
    s1: "trigger_event H t self ec kw pubs = (Inr (), s1, p1)"
    and rest: "trigger_all H calls s1 p1 = (Inr u, self', pubs')"
    by (auto split: prod.splits sum.splits)
  have ok: "is_versioned (owner_of ec)" "kind_of ec \<noteq> Discarded"
    and oks: "list_all (\<lambda>c. case c of Trigger ec kw t \<Rightarrow>
                       is_versioned (owner_of ec) \<and> kind_of ec \<noteq> Discarded) calls"
    using Cons.prems(1) c by auto
  from versioned_trigger_step [OF Cons.prems(2,3) ok s1] obtain ev where
    ev: "p1 = pubs @ [ev]" "map_of (ev_dict ev) ''originator_version'' = Some (VInt (n + 1))"
    and v1: "get_version s1 = Inr (VInt (n + 1))" and ty: "ent_type s1 = ent_type self"
    by auto
  have vs1: "is_versioned (ent_type s1)" using ty Cons.prems(2) by simp
  from Cons.IH [OF oks vs1 v1 rest] obtain evs where
    a: "get_version self' = Inr (VInt (n + 1 + int (length calls)))"
    and b: "ent_type self' = ent_type s1"
    and evs: "pubs' = p1 @ evs" "length evs = length calls"
      "\<forall>j < length evs. map_of (ev_dict (evs ! j)) ''originator_version''
          = Some (VInt (n + 1 + 1 + int j))"
    by auto
  have 1: "get_version self' = Inr (VInt (n + int (length (c # calls))))"
    using a by (simp add: ac_simps)
  have 2: "ent_type self' = ent_type self" using b ty by simp
  have 3: "pubs' = pubs @ (ev # evs)" "length (ev # evs) = length (c # calls)"
    using ev(1) evs(1,2) by simp_all
  have 4: "\<forall>j < length (ev # evs).
             map_of (ev_dict ((ev # evs) ! j)) ''originator_version'' = Some (VInt (n + 1 + int j))"
  proof (intro allI impI)
    fix j assume "j < length (ev # evs)"
    then show "map_of (ev_dict ((ev # evs) ! j)) ''originator_version'' = Some (VInt (n + 1 + int j))"
      using ev(2) evs(3) by (cases j) (simp_all add: ac_simps)
  qed
  from 1 2 3 4 show ?case by blast
qed

section \<open>Creation\<close>

lemma resolve_get_topic: "resolve_topic (VStr (get_topic c)) = Inr c"
  by (cases c) (simp_all add: resolve_topic_def get_topic_def all_classes_def)

text \<open>\<^verbatim>\<open>__entity_kwargs__\<close> of a \<^verbatim>\<open>Created\<close> event, by the class that declares it.\<close>

lemma entity_kwargs_resolved:
  assumes "ev_type self = EventClass c Created"
  shows "entity_kwargs self =
     (case c of
        DomainEntity \<Rightarrow> DomainEntity_Created_entity_kwargs self
      | EntityWithHashchain \<Rightarrow>
          (case DomainEntity_Created_entity_kwargs self of
             Inl e \<Rightarrow> Inl e
           | Inr kwargs \<Rightarrow>
               Inr (AList.delete ''__previous_hash__'' (AList.delete ''__event_hash__'' kwargs)))
      | VersionedEntity \<Rightarrow>
          (case DomainEntity_Created_entity_kwargs self of
             Inl e \<Rightarrow> Inl e
           | Inr kwargs \<Rightarrow> pop_rename ''originator_version'' ''__version__'' kwargs)
      | TimestampedEntity \<Rightarrow>
          (case DomainEntity_Created_entity_kwargs self of
             Inl e \<Rightarrow> Inl e
           | Inr kwargs \<Rightarrow> pop_rename ''timestamp'' ''__created_on__'' kwargs)
      | TimestampedVersionedEntity \<Rightarrow>
          (case DomainEntity_Created_entity_kwargs self of
             Inl e \<Rightarrow> Inl e
           | Inr kwargs \<Rightarrow>
               (case pop_rename ''originator_version'' ''__version__'' kwargs of
                  Inl e \<Rightarrow> Inl e
                | Inr kwargs' \<Rightarrow> pop_rename ''timestamp'' ''__created_on__'' kwargs')))"
  using assms
  by (cases c) (simp_all add: entity_kwargs_def DomainEntity_Created_entity_kwargs_def split: sum.splits)

lemma mutate_None_returns:
  assumes "event_mutate ev None = Returned ob"
  shows "\<exists>c new. ev_type ev = EventClass c Created \<and> Created_mutate ev TNone = Inr new
           \<and> ob = (if c = EntityWithHashchain
                    then setattr new ''__head__'' (dict_get (ev_dict ev) ''__event_hash__'')
                    else new)"
proof -
  obtain c k where ck: "ev_type ev = EventClass c k" by (cases "ev_type ev") auto
  show ?thesis
  proof (cases k)
    case Event
    then show ?thesis using ck assms
      by (simp add: mutate_Event_resolved DomainEvent_mutate_None extension_mutate_Returned_None)
  next
    case Created
    then show ?thesis using ck assms
      by (auto simp: mutate_Created_resolved DomainEntity_Created_mutate_def
            EntityWithHashchain_Event_mutate_def split: sum.splits if_splits)
  next
    case AttributeChanged
    then show ?thesis using ck assms
      by (auto simp: mutate_AttributeChanged_resolved DomainEvent_mutate_None
            extension_mutate_Raised extension_mutate_Returned_None
            DomainEntity_AttributeChanged_mutate_def
          split: sum.splits pyval.splits)
  next
    case Discarded
    then show ?thesis using ck assms Discarded_returns_no_object [of ev None ob] by simp
  qed
qed

lemma create_success:
  assumes "create H now uuid4 cls oid eco kwargs pubs = (Inr ob, pubs')"
  shows "\<exists>ev kwargs'.
           new_event H now (case eco of None \<Rightarrow> EventClass cls Created | Some c \<Rightarrow> c)
             ((''originator_id'', if oid = VNone then uuid4 else oid)
              # (''originator_topic'', VStr (get_topic cls)) # kwargs') = Inr ev
         \<and> kwargs' = (if cls = EntityWithHashchain
                       then AList.update ''__previous_hash__'' GENESIS_HASH kwargs else kwargs)
         \<and> map_of kwargs' ''originator_id'' = None \<and> map_of kwargs' ''originator_topic'' = None
         \<and> event_mutate ev None = Returned ob \<and> pubs' = pubs @ [ev]"
  using assms
  by (auto simp: create_def DomainEntity_create_def Let_def dest!: publish_appends
      split: if_splits sum.splits mres.splits prod.splits)

lemma construct_type: "construct c kwargs = Inr ob \<Longrightarrow> ent_type ob = c"
  by (auto simp: construct_def split: sum.splits)

lemma construct_fields:
  assumes "construct c kwargs = Inr ob"
  shows "map_of (ent_dict ob) ''_id'' = map_of kwargs ''id''
       \<and> map_of (ent_dict ob) ''__is_discarded__'' = Some (VBool False)
       \<and> (is_versioned c \<longrightarrow> map_of (ent_dict ob) ''___version__'' = map_of kwargs ''__version__'')
       \<and> (is_timestamped c \<longrightarrow>
             map_of (ent_dict ob) ''___created_on__'' = map_of kwargs ''__created_on__''
           \<and> map_of (ent_dict ob) ''___last_modified__'' = map_of kwargs ''__created_on__'')
       \<and> (c = EntityWithHashchain \<longrightarrow> map_of (ent_dict ob) ''__head__'' = Some GENESIS_HASH)"
  using assms
  by (cases c)
     (auto simp: construct_def update_conv' delete_conv' split: sum.splits option.splits if_splits)

lemma pop_rename_conv:
  "pop_rename old new kwargs = Inr kw \<Longrightarrow>
     map_of kwargs old \<noteq> None \<and> map_of kw = ((map_of kwargs)(old := None))(new := map_of kwargs old)"
  by (auto simp: pop_rename_def update_conv' delete_conv' split: option.splits)

lemma versioned_Created_kwargs:
  assumes "ev_type ev = EventClass c Created" and "is_versioned c" and "entity_kwargs ev = Inr kw"
  shows "map_of kw ''__version__'' = map_of (ev_dict ev) ''originator_version''"
  using assms
  by (cases c)
     (auto simp: entity_kwargs_resolved DomainEntity_Created_entity_kwargs_def delete_conv'
        split: sum.splits dest!: pop_rename_conv)

lemma new_event_default_version:
  assumes "new_event H now ec kwargs = Inr ev" and "derives ec (Nested VersionedEntity Created)"
    and "map_of kwargs ''originator_version'' = None"
  shows "map_of (ev_dict ev) ''originator_version'' = Some (VInt 0)"
proof -
  have 1: "map_of (default_version ec kwargs) ''originator_version'' = Some (VInt 0)"
    using assms(2,3) by (simp add: default_version_def update_conv')
  have 2: "map_of (stamp_timestamp now ec (default_version ec kwargs)) ''originator_version''
             = Some (VInt 0)"
    using 1 by (simp add: stamp_timestamp_def update_conv')
  have "map_of (stamp_hash H ec (stamp_timestamp now ec (default_version ec kwargs)))
          ''originator_version'' = Some (VInt 0)"
    using 2 by (simp add: stamp_hash_def update_conv' Let_def)
  then show ?thesis using new_event_dict [OF assms(1)] by simp
qed

lemma derives_versioned_Created:
  "derives (EventClass c Created) (Nested VersionedEntity Created) = is_versioned c"
  by (cases c) (simp_all add: derives_def)

lemma create_version_zero:
  assumes "is_versioned cls" and "map_of kwargs ''originator_version'' = None"
    and "create H now uuid4 cls oid None kwargs pubs = (Inr ob, pubs')"
  shows "get_version ob = Inr (VInt 0) \<and> ent_type ob = cls"
proof -
  have nh: "cls \<noteq> EntityWithHashchain" using assms(1) by auto
  from create_success [OF assms(3)] nh obtain ev where
    ne: "new_event H now (EventClass cls Created)
           ((''originator_id'', if oid = VNone then uuid4 else oid)
            # (''originator_topic'', VStr (get_topic cls)) # kwargs) = Inr ev"
    and m: "event_mutate ev None = Returned ob"
    by auto
  have ty: "ev_type ev = EventClass cls Created" using new_event_type [OF ne] .
  have ov: "map_of (ev_dict ev) ''originator_version'' = Some (VInt 0)"
    using new_event_default_version [OF ne] assms(1,2) by (simp add: derives_versioned_Created)
  have tp: "map_of (ev_dict ev) ''originator_topic'' = Some (VStr (get_topic cls))"
    using new_event_keeps [OF ne, of "''originator_topic''"] by simp
  from mutate_None_returns [OF m] ty assms(1) have cm: "Created_mutate ev TNone = Inr ob"
    by auto
  then obtain kw where kw: "entity_kwargs ev = Inr kw" and c: "construct cls kw = Inr ob"
    using tp by (auto simp: Created_mutate_def getitem_def resolve_get_topic split: sum.splits)
  from versioned_Created_kwargs [OF ty assms(1) kw] ov construct_fields [OF c] construct_type [OF c]
    assms(1)
  show ?thesis by (simp add: get_version_def getattr_def)
qed

section \<open>Evaluation on concrete inputs\<close>

text \<open>The equations that evaluate the model on a concrete entity and event.\<close>

lemmas eval_defs =
  create_def DomainEntity_create_def trigger_event_def trigger_event_arg_def
  DomainEntity_trigger_event_def EntityWithHashchain_trigger_event_def
  VersionedEntity_trigger_event_def discard_def nested_class_def shadowed_def publish_def
  entity_mutate_def new_event_def default_version_def stamp_timestamp_def stamp_hash_def
  derives_def get_event_topic_def get_topic_def resolve_topic_def all_classes_def
  getattr_def getitem_def dict_get_def get_id_def get_version_def setattr_def py_setattr_def
  properties_def py_eq_def given_def Let_def quiet_def
  check_obj_resolved DomainEntity_Event_check_obj_def EntityWithHashchain_Event_check_obj_def
  VersionedEntity_Event_check_obj_def
  mutate_Event_resolved mutate_AttributeChanged_resolved mutate_Created_resolved
  DomainEvent_mutate_def DomainEntity_AttributeChanged_mutate_def
  DomainEntity_Discarded_mutate_def DomainEntity_Created_mutate_def Created_mutate_def
  EntityWithHashchain_Event_mutate_def EntityWithHashchain_Discarded_set_head_def
  VersionedEntity_Event_mutate_def TimestampedEntity_Event_mutate_def
  entity_kwargs_resolved DomainEntity_Created_entity_kwargs_def pop_rename_def construct_def


section \<open>The version counts the events (C5)\<close>

text \<open>
  A trigger of a \<^verbatim>\<open>Discarded\<close> event that returns, on a versioned entity: the event is
  stamped with the next version, and the version of the entity is left as it was.
\<close>

lemma versioned_discard_step:
  assumes "is_versioned (ent_type self)" and "get_version self = Inr (VInt n)"
    and "kind_of ec = Discarded"
    and "trigger_event H now self ec kwargs pubs = (Inr u, self', pubs')"
  shows "\<exists>ev. pubs' = pubs @ [ev] \<and> ev_type ev = ec
          \<and> map_of (ev_dict ev) ''originator_version'' = Some (VInt (n + 1))
          \<and> get_version self' = Inr (VInt n) \<and> ent_type self' = ent_type self"
proof -
  from assms(4) have t: "trigger_event_arg H now self (Class ec) kwargs pubs = (Inr u, self', pubs')"
    by (simp add: trigger_event_def)
  from trigger_success [OF t] assms(1,2) have
    b: "DomainEntity_trigger_event H now self (Class ec) ((''originator_version'', VInt (n + 1)) # kwargs) pubs
          = (Inr u, self', pubs')"
    by auto
  from base_trigger_success [OF b] obtain i ev where
    ne: "new_event H now ec ((''originator_id'', i) # (''originator_version'', VInt (n + 1)) # kwargs) = Inr ev"
    and em: "entity_mutate self ev = (Inr (), self')"
    and pb: "publish H self' ev pubs = (Inr (), pubs')" by auto
  have ty: "ev_type ev = ec" using new_event_type [OF ne] .
  have ov: "map_of (ev_dict ev) ''originator_version'' = Some (VInt (n + 1))"
    using new_event_keeps [OF ne, of "''originator_version''"] by simp
  have "kind_of (ev_type ev) = Discarded" using ty assms(3) by simp
  from Discarded_entity_mutate [OF this em] obtain ob' where
    ob: "ob' = self \<or> (\<exists>h. ob' = setattr self ''__head__'' h)"
    and s: "self' = setattr ob' ''__is_discarded__'' (VBool True)"
    by blast
  have "ent_type self' = ent_type self" using ob s by auto
  moreover have "get_version self' = get_version self"
    using ob s by (auto simp: get_version_def getattr_def)
  ultimately show ?thesis using publish_appends [OF pb] ty ov assms(2) by simp
qed

text \<open>
  C5, as stated, has the version equal the number of successful triggers. Two runs of the
  code say otherwise. A \<^verbatim>\<open>Discarded\<close> event is triggered like any other
  (\<^verbatim>\<open>__discard__\<close> calls \<^verbatim>\<open>__trigger_event__\<close>) and is stamped with version 1, but
  \<^verbatim>\<open>DomainEntity.Discarded.__mutate__\<close> returns \<^verbatim>\<open>None\<close>, so
  \<^verbatim>\<open>VersionedEntity.Event.__mutate__\<close> skips the assignment: after one successful
  trigger the version is still 0. And a trigger that raises may have advanced the version
  before it raised: triggered on a \<^verbatim>\<open>VersionedEntity\<close>, a
  \<^verbatim>\<open>TimestampedVersionedEntity.AttributeChanged\<close> event sets the attribute, then
  \<^verbatim>\<open>VersionedEntity.Event.__mutate__\<close> assigns version 1, then the assertion of
  \<^verbatim>\<open>TimestampedEntity.Event.__mutate__\<close> fails: the call raises, nothing is published,
  and the version is 1 after no successful trigger.
\<close>

theorem version_is_not_the_count_of_successes:
  "trigger_event quiet VNone
     \<lparr>ent_type = VersionedEntity,
      ent_dict = [(''_id'', VUUID 1), (''__is_discarded__'', VBool False),
                  (''___version__'', VInt 0)]\<rparr>
     (EventClass VersionedEntity Discarded) [] []
   = (Inr (),
      \<lparr>ent_type = VersionedEntity,
       ent_dict = [(''_id'', VUUID 1), (''__is_discarded__'', VBool True),
                   (''___version__'', VInt 0)]\<rparr>,
      [\<lparr>ev_type = EventClass VersionedEntity Discarded,
        ev_dict = [(''originator_id'', VUUID 1), (''originator_version'', VInt 1)]\<rparr>])
   \<and> trigger_event quiet (VDec 5)
     \<lparr>ent_type = VersionedEntity,
      ent_dict = [(''_id'', VUUID 1), (''__is_discarded__'', VBool False),
                  (''___version__'', VInt 0)]\<rparr>
     (EventClass TimestampedVersionedEntity AttributeChanged)
     [(''name'', VStr ''a''), (''value'', VInt 7)] []
   = (Inl AssertionError,
      \<lparr>ent_type = VersionedEntity,
       ent_dict = [(''_id'', VUUID 1), (''__is_discarded__'', VBool False),
                   (''___version__'', VInt 1), (''a'', VInt 7)]\<rparr>,
      [])"
  by (simp add: eval_defs Discarded_mutate_Some [of _ VersionedEntity])

text \<open>
  C5, amended. \<^verbatim>\<open>__create__\<close> of a versioned entity class, with no
  \<^verbatim>\<open>originator_version\<close> given, yields an entity at version 0. After a run of \<open>k\<close>
  calls of \<^verbatim>\<open>__trigger_event__\<close> on it, each of a versioned event class of a kind other
  than \<^verbatim>\<open>Discarded\<close> and every one of which returned (the run has no call that raised),
  the version is \<open>k\<close>, and the \<open>j\<close>-th of the events the calls published carries
  \<^verbatim>\<open>originator_version\<close> \<open>j\<close> (the version of the entity at the trigger, plus 1). A
  trigger of a \<^verbatim>\<open>Discarded\<close> event that then returns publishes an event stamped
  \<open>k + 1\<close> and leaves the version \<open>k\<close>.
\<close>

theorem version_counts_triggers:
  assumes "is_versioned cls" and "map_of kwargs ''originator_version'' = None"
    and "create H now uuid4 cls oid None kwargs pubs0 = (Inr ob, pubs1)"
    and "list_all (\<lambda>c. case c of Trigger ec kw t \<Rightarrow>
                       is_versioned (owner_of ec) \<and> kind_of ec \<noteq> Discarded) calls"
    and "trigger_all H calls ob pubs1 = (Inr u, ob', pubs2)"
  shows "get_version ob = Inr (VInt 0)
       \<and> get_version ob' = Inr (VInt (int (length calls)))
       \<and> (\<exists>evs. pubs2 = pubs1 @ evs \<and> length evs = length calls
             \<and> (\<forall>j < length evs.
                   map_of (ev_dict (evs ! j)) ''originator_version'' = Some (VInt (1 + int j))))
       \<and> (\<forall>H2 now2 ec kw u2 ob2 pubs3.
             kind_of ec = Discarded
             \<and> trigger_event H2 now2 ob' ec kw pubs2 = (Inr u2, ob2, pubs3)
             \<longrightarrow> get_version ob2 = Inr (VInt (int (length calls)))
               \<and> (\<exists>ev. pubs3 = pubs2 @ [ev]
                      \<and> map_of (ev_dict ev) ''originator_version''
                          = Some (VInt (int (length calls) + 1))))"
proof -
  from create_version_zero [OF assms(1,2,3)]
  have v0: "get_version ob = Inr (VInt 0)" and ty: "is_versioned (ent_type ob)"
    using assms(1) by auto
  from versioned_trigger_all [OF assms(4) ty v0 assms(5)]
  have vk: "get_version ob' = Inr (VInt (int (length calls)))"
    and tk: "ent_type ob' = ent_type ob"
    and ek: "\<exists>evs. pubs2 = pubs1 @ evs \<and> length evs = length calls
             \<and> (\<forall>j < length evs.
                   map_of (ev_dict (evs ! j)) ''originator_version'' = Some (VInt (1 + int j)))"
    by simp_all
  have ty': "is_versioned (ent_type ob')" using tk ty by simp
  have "\<forall>H2 now2 ec kw u2 ob2 pubs3.
             kind_of ec = Discarded
             \<and> trigger_event H2 now2 ob' ec kw pubs2 = (Inr u2, ob2, pubs3)
             \<longrightarrow> get_version ob2 = Inr (VInt (int (length calls)))
               \<and> (\<exists>ev. pubs3 = pubs2 @ [ev]
                      \<and> map_of (ev_dict ev) ''originator_version''
                          = Some (VInt (int (length calls) + 1)))"
    using versioned_discard_step [OF ty' vk] by blast
  with v0 vk ek show ?thesis by blast
qed

lemma create_versioned_example:
  "create quiet VNone (VUUID 1) VersionedEntity VNone None [] []
   = (Inr \<lparr>ent_type = VersionedEntity,
           ent_dict = [(''_id'', VUUID 1), (''__is_discarded__'', VBool False),
                       (''___version__'', VInt 0)]\<rparr>,
      [\<lparr>ev_type = EventClass VersionedEntity Created,
        ev_dict = [(''originator_id'', VUUID 1),
                   (''originator_topic'',
                    VStr ''eventsourcing.domain.model.entity#VersionedEntity''),
                   (''originator_version'', VInt 0)]\<rparr>])"
  by (simp add: eval_defs event_mutate_def)

lemma trigger_all_versioned_example:
  "trigger_all quiet
     [Trigger (EventClass VersionedEntity AttributeChanged)
        [(''name'', VStr ''a''), (''value'', VInt 7)] VNone,
      Trigger (EventClass VersionedEntity Event) [] VNone]
     \<lparr>ent_type = VersionedEntity,
      ent_dict = [(''_id'', VUUID 1), (''__is_discarded__'', VBool False),
                  (''___version__'', VInt 0)]\<rparr>
     [\<lparr>ev_type = EventClass VersionedEntity Created,
       ev_dict = [(''originator_id'', VUUID 1),
                  (''originator_topic'',
                   VStr ''eventsourcing.domain.model.entity#VersionedEntity''),
                  (''originator_version'', VInt 0)]\<rparr>]
   = (Inr (),
      \<lparr>ent_type = VersionedEntity,
       ent_dict = [(''_id'', VUUID 1), (''__is_discarded__'', VBool False),
                   (''___version__'', VInt 2), (''a'', VInt 7)]\<rparr>,
      [\<lparr>ev_type = EventClass VersionedEntity Created,
        ev_dict = [(''originator_id'', VUUID 1),
                   (''originator_topic'',
                    VStr ''eventsourcing.domain.model.entity#VersionedEntity''),
                   (''originator_version'', VInt 0)]\<rparr>,
       \<lparr>ev_type = EventClass VersionedEntity AttributeChanged,
        ev_dict = [(''originator_id'', VUUID 1), (''originator_version'', VInt 1),
                   (''name'', VStr ''a''), (''value'', VInt 7)]\<rparr>,
       \<lparr>ev_type = EventClass VersionedEntity Event,
        ev_dict = [(''originator_id'', VUUID 1), (''originator_version'', VInt 2)]\<rparr>])"
  by (simp add: eval_defs)


lemma discard_versioned_example:
  "trigger_event quiet VNone
     \<lparr>ent_type = VersionedEntity,
      ent_dict = [(''_id'', VUUID 1), (''__is_discarded__'', VBool False),
                  (''___version__'', VInt 2), (''a'', VInt 7)]\<rparr>
     (EventClass VersionedEntity Discarded) []
     [\<lparr>ev_type = EventClass VersionedEntity Created,
       ev_dict = [(''originator_id'', VUUID 1),
                  (''originator_topic'',
                   VStr ''eventsourcing.domain.model.entity#VersionedEntity''),
                  (''originator_version'', VInt 0)]\<rparr>,
      \<lparr>ev_type = EventClass VersionedEntity AttributeChanged,
       ev_dict = [(''originator_id'', VUUID 1), (''originator_version'', VInt 1),
                  (''name'', VStr ''a''), (''value'', VInt 7)]\<rparr>,
      \<lparr>ev_type = EventClass VersionedEntity Event,
       ev_dict = [(''originator_id'', VUUID 1), (''originator_version'', VInt 2)]\<rparr>]
   = (Inr (),
      \<lparr>ent_type = VersionedEntity,
       ent_dict = [(''_id'', VUUID 1), (''__is_discarded__'', VBool True),
                   (''___version__'', VInt 2), (''a'', VInt 7)]\<rparr>,
      [\<lparr>ev_type = EventClass VersionedEntity Created,
        ev_dict = [(''originator_id'', VUUID 1),
                   (''originator_topic'',
                    VStr ''eventsourcing.domain.model.entity#VersionedEntity''),
                   (''originator_version'', VInt 0)]\<rparr>,
       \<lparr>ev_type = EventClass VersionedEntity AttributeChanged,
        ev_dict = [(''originator_id'', VUUID 1), (''originator_version'', VInt 1),
                   (''name'', VStr ''a''), (''value'', VInt 7)]\<rparr>,
       \<lparr>ev_type = EventClass VersionedEntity Event,
        ev_dict = [(''originator_id'', VUUID 1), (''originator_version'', VInt 2)]\<rparr>,
       \<lparr>ev_type = EventClass VersionedEntity Discarded,
        ev_dict = [(''originator_id'', VUUID 1), (''originator_version'', VInt 3)]\<rparr>])"
  by (simp add: eval_defs Discarded_mutate_Some [of _ VersionedEntity])

theorem version_counts_triggers_witness:
  "get_version
     \<lparr>ent_type = VersionedEntity,
      ent_dict = [(''_id'', VUUID 1), (''__is_discarded__'', VBool False),
                  (''___version__'', VInt 2), (''a'', VInt 7)]\<rparr>
   = Inr (VInt 2)
   \<and> get_version
     \<lparr>ent_type = VersionedEntity,
      ent_dict = [(''_id'', VUUID 1), (''__is_discarded__'', VBool True),
                  (''___version__'', VInt 2), (''a'', VInt 7)]\<rparr>
   = Inr (VInt 2)"
proof -
  have v: "is_versioned VersionedEntity" by simp
  have p: "map_of ([] :: pydict) ''originator_version'' = None" by simp
  have l: "list_all (\<lambda>c. case c of Trigger ec kw t \<Rightarrow>
                       is_versioned (owner_of ec) \<and> kind_of ec \<noteq> Discarded)
             [Trigger (EventClass VersionedEntity AttributeChanged)
                [(''name'', VStr ''a''), (''value'', VInt 7)] VNone,
              Trigger (EventClass VersionedEntity Event) [] VNone]"
    by simp
  have k: "kind_of (EventClass VersionedEntity Discarded) = Discarded" by simp
  note t = version_counts_triggers
    [OF v p create_versioned_example l trigger_all_versioned_example]
  from t have a: "get_version
     \<lparr>ent_type = VersionedEntity,
      ent_dict = [(''_id'', VUUID 1), (''__is_discarded__'', VBool False),
                  (''___version__'', VInt 2), (''a'', VInt 7)]\<rparr>
   = Inr (VInt 2)" by simp
  from t [THEN conjunct2, THEN conjunct2, THEN conjunct2, rule_format,
          OF conjI [OF k discard_versioned_example]]
  have "get_version
     \<lparr>ent_type = VersionedEntity,
      ent_dict = [(''_id'', VUUID 1), (''__is_discarded__'', VBool True),
                  (''___version__'', VInt 2), (''a'', VInt 7)]\<rparr>
   = Inr (VInt 2)" by simp
  with a show ?thesis by simp
qed

section \<open>Timestamps\<close>

lemma extension_mutate_timestamps:
  assumes "extension_mutate c self (Some ob0) (Returned ob) = Returned ob'"
  shows "map_of (ent_dict ob') ''___created_on__'' = map_of (ent_dict ob) ''___created_on__''
       \<and> (is_timestamped c \<longrightarrow>
             map_of (ent_dict ob') ''___last_modified__'' = map_of (ev_dict self) ''timestamp''
           \<and> map_of (ev_dict self) ''timestamp'' \<noteq> None)"
  using assms
  by (cases c)
     (auto simp: EntityWithHashchain_Event_mutate_def VersionedEntity_Event_mutate_def
        TimestampedEntity_Event_mutate_def given_def getitem_def
        split: option.splits if_splits)

lemma py_setattr_other:
  "py_setattr ob n v = Inr ob' \<Longrightarrow> n \<noteq> VStr k \<Longrightarrow> map_of (ent_dict ob') k = map_of (ent_dict ob) k"
  by (auto simp: py_setattr_def split: pyval.splits if_splits)

lemma timestamped_mutate_returns:
  assumes "is_timestamped (owner_of (ev_type ev))"
    and "event_mutate ev (Some ob) = Returned ob'"
  shows "map_of (ent_dict ob') ''___last_modified__'' = map_of (ev_dict ev) ''timestamp''
       \<and> map_of (ev_dict ev) ''timestamp'' \<noteq> None
       \<and> (\<not> (kind_of (ev_type ev) = AttributeChanged
              \<and> map_of (ev_dict ev) ''name'' = Some (VStr ''___created_on__'')) \<longrightarrow>
             map_of (ent_dict ob') ''___created_on__'' = map_of (ent_dict ob) ''___created_on__'')"
proof -
  obtain c k where ck: "ev_type ev = EventClass c k" by (cases "ev_type ev") auto
  have t: "is_timestamped c" using assms(1) ck by simp
  have "k \<noteq> Created" using Created_mutate_Some [of ev ob] ck assms(2) by auto
  moreover have "k \<noteq> Discarded" using Discarded_returns_no_object [of ev "Some ob" ob'] ck assms(2) by auto
  ultimately have k: "k = Event \<or> k = AttributeChanged" by (cases k) auto
  from plain_mutate_shape [OF ck k, of ob] obtain r0 where
    e: "event_mutate ev (Some ob) = extension_mutate c ev (Some ob) r0"
    and r0: "(\<exists>e. r0 = Raised e (Some ob))
             \<or> (k = Event \<and> r0 = Returned ob)
             \<or> (\<exists>n v ob1. k = AttributeChanged \<and> map_of (ev_dict ev) ''name'' = Some n
                   \<and> py_setattr ob n v = Inr ob1 \<and> r0 = Returned ob1)"
    by blast
  have "\<exists>ob1. r0 = Returned ob1
          \<and> (\<not> (k = AttributeChanged \<and> map_of (ev_dict ev) ''name'' = Some (VStr ''___created_on__''))
               \<longrightarrow> map_of (ent_dict ob1) ''___created_on__'' = map_of (ent_dict ob) ''___created_on__'')"
    using r0
  proof (elim disjE exE conjE)
    fix e assume "r0 = Raised e (Some ob)"
    then show ?thesis using e assms(2) by (simp add: extension_mutate_Raised)
  next
    assume "k = Event" "r0 = Returned ob"
    then show ?thesis by simp
  next
    fix n v ob1
    assume a: "k = AttributeChanged" "map_of (ev_dict ev) ''name'' = Some n"
      "py_setattr ob n v = Inr ob1" "r0 = Returned ob1"
    then show ?thesis using py_setattr_other [of ob n v ob1 "''___created_on__''"] by auto
  qed
  then obtain ob1 where ob1: "r0 = Returned ob1"
    and c1: "\<not> (k = AttributeChanged \<and> map_of (ev_dict ev) ''name'' = Some (VStr ''___created_on__''))
               \<longrightarrow> map_of (ent_dict ob1) ''___created_on__'' = map_of (ent_dict ob) ''___created_on__''"
    by blast
  from extension_mutate_timestamps [of c ev ob ob1 ob'] e ob1 assms(2) t c1 ck
  show ?thesis by auto
qed

lemma extension_mutate_not_None:
  "extension_mutate c self obj (Returned ob) \<noteq> Returned_None t"
  by (cases c)
     (auto simp: EntityWithHashchain_Event_mutate_def VersionedEntity_Event_mutate_def
        TimestampedEntity_Event_mutate_def split: sum.splits if_splits)

lemma Discarded_keeps_timestamps:
  assumes "event_mutate ev (Some ob) = Returned_None t"
  shows "kind_of (ev_type ev) = Discarded
       \<and> (\<exists>ob'. t = Some ob'
             \<and> map_of (ent_dict ob') ''___created_on__'' = map_of (ent_dict ob) ''___created_on__''
             \<and> map_of (ent_dict ob') ''___last_modified__'' = map_of (ent_dict ob) ''___last_modified__'')"
proof -
  obtain c k where ck: "ev_type ev = EventClass c k" by (cases "ev_type ev") auto
  have "k \<noteq> Created" using Created_mutate_Some [of ev ob] ck assms by auto
  moreover have "\<not> (k = Event \<or> k = AttributeChanged)"
  proof
    assume k: "k = Event \<or> k = AttributeChanged"
    from plain_mutate_shape [OF ck k, of ob] obtain r0 where
      e: "event_mutate ev (Some ob) = extension_mutate c ev (Some ob) r0"
      and r0: "(\<exists>e. r0 = Raised e (Some ob)) \<or> (\<exists>ob1. r0 = Returned ob1)" by blast
    from r0 e assms show False
      by (auto simp: extension_mutate_Raised extension_mutate_not_None
            extension_mutate_not_None [THEN not_sym])
  qed
  ultimately have k: "k = Discarded" by (cases k) auto
  show ?thesis
  proof (cases "c = EntityWithHashchain")
    case False
    then show ?thesis using ck k assms
      by (auto simp: Discarded_mutate_Some split: sum.splits)
  next
    case True
    then show ?thesis using ck k assms
      by (auto simp: hashchain_Discarded_mutate_Some split: sum.splits)
  qed
qed

lemma timestamped_Created_kwargs:
  assumes "ev_type ev = EventClass c Created" and "is_timestamped c" and "entity_kwargs ev = Inr kw"
  shows "map_of kw ''__created_on__'' = map_of (ev_dict ev) ''timestamp''
       \<and> map_of (ev_dict ev) ''timestamp'' \<noteq> None"
  using assms
  by (cases c)
     (auto simp: entity_kwargs_resolved DomainEntity_Created_entity_kwargs_def delete_conv'
        split: sum.splits dest!: pop_rename_conv)

lemma create_timestamps:
  assumes "is_timestamped cls"
    and "create H now uuid4 cls oid None kwargs pubs = (Inr ob, pubs')"
  shows "\<exists>ev t. pubs' = pubs @ [ev] \<and> ev_type ev = EventClass cls Created
           \<and> map_of (ev_dict ev) ''timestamp'' = Some t
           \<and> map_of (ent_dict ob) ''___created_on__'' = Some t
           \<and> map_of (ent_dict ob) ''___last_modified__'' = Some t
           \<and> ent_type ob = cls"
proof -
  have nh: "cls \<noteq> EntityWithHashchain" using assms(1) by auto
  from create_success [OF assms(2)] nh obtain ev where
    ne: "new_event H now (EventClass cls Created)
           ((''originator_id'', if oid = VNone then uuid4 else oid)
            # (''originator_topic'', VStr (get_topic cls)) # kwargs) = Inr ev"
    and m: "event_mutate ev None = Returned ob" and p: "pubs' = pubs @ [ev]"
    by auto
  have ty: "ev_type ev = EventClass cls Created" using new_event_type [OF ne] .
  have tp: "map_of (ev_dict ev) ''originator_topic'' = Some (VStr (get_topic cls))"
    using new_event_keeps [OF ne, of "''originator_topic''"] by simp
  from mutate_None_returns [OF m] ty nh have cm: "Created_mutate ev TNone = Inr ob"
    by auto
  then obtain kw where kw: "entity_kwargs ev = Inr kw" and c: "construct cls kw = Inr ob"
    using tp by (auto simp: Created_mutate_def getitem_def resolve_get_topic split: sum.splits)
  from timestamped_Created_kwargs [OF ty assms(1) kw] obtain t where
    t: "map_of (ev_dict ev) ''timestamp'' = Some t" "map_of kw ''__created_on__'' = Some t"
    by auto
  from construct_fields [OF c] construct_type [OF c] assms(1) t p ty show ?thesis by auto
qed

section \<open>Created on, last modified (C4)\<close>

text \<open>
  C4, as stated, has every event kind stamp \<^verbatim>\<open>__last_modified__\<close>, \<^verbatim>\<open>Discarded\<close>
  included, and no later event change \<^verbatim>\<open>__created_on__\<close>.
  \<^verbatim>\<open>TimestampedEntity.Event.__mutate__\<close> assigns only \<^verbatim>\<open>if obj is not None\<close>, and the
  mutation of \<^verbatim>\<open>Discarded\<close> returns \<^verbatim>\<open>None\<close>: a \<^verbatim>\<open>Discarded\<close> event with timestamp 5
  leaves \<^verbatim>\<open>__last_modified__\<close> at 2. And an \<^verbatim>\<open>AttributeChanged\<close> event that names the
  attribute \<^verbatim>\<open>___created_on__\<close> assigns it.
\<close>

theorem timestamps_not_unconditional:
  "event_mutate
     \<lparr>ev_type = EventClass TimestampedEntity Discarded,
      ev_dict = [(''originator_id'', VUUID 1), (''timestamp'', VDec 5)]\<rparr>
     (Some \<lparr>ent_type = TimestampedEntity,
            ent_dict = [(''_id'', VUUID 1), (''__is_discarded__'', VBool False),
                        (''___created_on__'', VDec 2), (''___last_modified__'', VDec 2)]\<rparr>)
   = Returned_None
       (Some \<lparr>ent_type = TimestampedEntity,
              ent_dict = [(''_id'', VUUID 1), (''__is_discarded__'', VBool True),
                          (''___created_on__'', VDec 2), (''___last_modified__'', VDec 2)]\<rparr>)
   \<and> event_mutate
     \<lparr>ev_type = EventClass TimestampedEntity AttributeChanged,
      ev_dict = [(''originator_id'', VUUID 1), (''name'', VStr ''___created_on__''),
                 (''value'', VDec 9), (''timestamp'', VDec 5)]\<rparr>
     (Some \<lparr>ent_type = TimestampedEntity,
            ent_dict = [(''_id'', VUUID 1), (''__is_discarded__'', VBool False),
                        (''___created_on__'', VDec 2), (''___last_modified__'', VDec 2)]\<rparr>)
   = Returned
       \<lparr>ent_type = TimestampedEntity,
        ent_dict = [(''_id'', VUUID 1), (''__is_discarded__'', VBool False),
                    (''___created_on__'', VDec 9), (''___last_modified__'', VDec 5)]\<rparr>"
  by (simp add: eval_defs Discarded_mutate_Some [of _ TimestampedEntity])

text \<open>
  C4, amended. \<^verbatim>\<open>__create__\<close> of a timestamped entity class sets \<^verbatim>\<open>__created_on__\<close> and
  \<^verbatim>\<open>__last_modified__\<close> to the timestamp of the \<^verbatim>\<open>Created\<close> event. The mutation of an
  event of a timestamped event class that returns the entity has set
  \<^verbatim>\<open>__last_modified__\<close> to the event's timestamp and left \<^verbatim>\<open>__created_on__\<close> as it was,
  unless the event is an \<^verbatim>\<open>AttributeChanged\<close> that names \<^verbatim>\<open>___created_on__\<close> itself. A
  mutation that returns \<^verbatim>\<open>None\<close> is that of a \<^verbatim>\<open>Discarded\<close> event, and leaves both as
  they were.
\<close>

theorem timestamps_by_event_kind:
  assumes "is_timestamped cls"
    and "create H now uuid4 cls oid None kwargs pubs = (Inr new, pubs')"
    and "is_timestamped (owner_of (ev_type ev))"
  shows "(\<exists>t. map_of (ev_dict (last pubs')) ''timestamp'' = Some t
             \<and> get_created_on new = Inr t \<and> get_last_modified new = Inr t)
       \<and> (\<forall>ob'. event_mutate ev (Some ob) = Returned ob' \<longrightarrow>
             map_of (ent_dict ob') ''___last_modified__'' = map_of (ev_dict ev) ''timestamp''
           \<and> map_of (ev_dict ev) ''timestamp'' \<noteq> None
           \<and> (\<not> (kind_of (ev_type ev) = AttributeChanged
                  \<and> map_of (ev_dict ev) ''name'' = Some (VStr ''___created_on__'')) \<longrightarrow>
                 map_of (ent_dict ob') ''___created_on__'' = map_of (ent_dict ob) ''___created_on__''))
       \<and> (\<forall>t. event_mutate ev (Some ob) = Returned_None t \<longrightarrow>
             kind_of (ev_type ev) = Discarded
           \<and> (\<exists>ob'. t = Some ob'
                 \<and> map_of (ent_dict ob') ''___created_on__'' = map_of (ent_dict ob) ''___created_on__''
                 \<and> map_of (ent_dict ob') ''___last_modified__''
                     = map_of (ent_dict ob) ''___last_modified__''))"
proof (intro conjI allI impI)
  from create_timestamps [OF assms(1,2)] assms(1)
  show "\<exists>t. map_of (ev_dict (last pubs')) ''timestamp'' = Some t
             \<and> get_created_on new = Inr t \<and> get_last_modified new = Inr t"
    by (auto simp: get_created_on_def get_last_modified_def getattr_def)
next
  fix ob' assume r: "event_mutate ev (Some ob) = Returned ob'"
  from timestamped_mutate_returns [OF assms(3) r]
  show "map_of (ent_dict ob') ''___last_modified__'' = map_of (ev_dict ev) ''timestamp''"
    and "map_of (ev_dict ev) ''timestamp'' \<noteq> None"
    by simp_all
  assume "\<not> (kind_of (ev_type ev) = AttributeChanged
              \<and> map_of (ev_dict ev) ''name'' = Some (VStr ''___created_on__''))"
  with timestamped_mutate_returns [OF assms(3) r]
  show "map_of (ent_dict ob') ''___created_on__'' = map_of (ent_dict ob) ''___created_on__''"
    by simp
next
  fix t assume r: "event_mutate ev (Some ob) = Returned_None t"
  from Discarded_keeps_timestamps [OF r]
  show "kind_of (ev_type ev) = Discarded"
    and "\<exists>ob'. t = Some ob'
           \<and> map_of (ent_dict ob') ''___created_on__'' = map_of (ent_dict ob) ''___created_on__''
           \<and> map_of (ent_dict ob') ''___last_modified__'' = map_of (ent_dict ob) ''___last_modified__''"
    by simp_all
qed

lemma create_timestamped_example:
  "create quiet (VDec 2) (VUUID 1) TimestampedEntity VNone None [] []
   = (Inr \<lparr>ent_type = TimestampedEntity,
           ent_dict = [(''_id'', VUUID 1), (''__is_discarded__'', VBool False),
                       (''___created_on__'', VDec 2), (''___last_modified__'', VDec 2)]\<rparr>,
      [\<lparr>ev_type = EventClass TimestampedEntity Created,
        ev_dict = [(''originator_id'', VUUID 1),
                   (''originator_topic'',
                    VStr ''eventsourcing.domain.model.entity#TimestampedEntity''),
                   (''timestamp'', VDec 2)]\<rparr>])"
  by (simp add: eval_defs event_mutate_def)

theorem timestamps_by_event_kind_witness:
  "get_created_on
     \<lparr>ent_type = TimestampedEntity,
      ent_dict = [(''_id'', VUUID 1), (''__is_discarded__'', VBool False),
                  (''___created_on__'', VDec 2), (''___last_modified__'', VDec 2)]\<rparr>
   = Inr (VDec 2)
   \<and> event_mutate
       \<lparr>ev_type = EventClass TimestampedEntity AttributeChanged,
        ev_dict = [(''originator_id'', VUUID 1), (''name'', VStr ''a''),
                   (''value'', VInt 7), (''timestamp'', VDec 5)]\<rparr>
       (Some \<lparr>ent_type = TimestampedEntity,
              ent_dict = [(''_id'', VUUID 1), (''__is_discarded__'', VBool False),
                          (''___created_on__'', VDec 2), (''___last_modified__'', VDec 2)]\<rparr>)
     = Returned
         \<lparr>ent_type = TimestampedEntity,
          ent_dict = [(''_id'', VUUID 1), (''__is_discarded__'', VBool False),
                      (''___created_on__'', VDec 2), (''___last_modified__'', VDec 5),
                      (''a'', VInt 7)]\<rparr>"
  using timestamps_by_event_kind
    [OF _ create_timestamped_example,
     of "\<lparr>ev_type = EventClass TimestampedEntity AttributeChanged,
          ev_dict = [(''originator_id'', VUUID 1), (''name'', VStr ''a''),
                     (''value'', VInt 7), (''timestamp'', VDec 5)]\<rparr>"
        "\<lparr>ent_type = TimestampedEntity,
          ent_dict = [(''_id'', VUUID 1), (''__is_discarded__'', VBool False),
                      (''___created_on__'', VDec 2), (''___last_modified__'', VDec 2)]\<rparr>"]
  by (simp add: eval_defs get_created_on_def)

section \<open>What a Created event constructs\<close>







section \<open>Identity and construction (C8)\<close>





section \<open>Replaying a history\<close>

lemma py_eq_refl: "py_eq v v"
  by (cases v) (simp_all add: py_eq_def)

lemma dict_eq_refl: "dict_eq d d"
  by (auto simp: dict_eq_def list_all_iff py_eq_refl split: option.splits
      dest: weak_map_of_SomeI)

lemma entity_eq_refl: "entity_eq ob ob"
  by (simp add: entity_eq_def dict_eq_refl)

lemma replay_from_append:
  "replay_from (xs @ ys) obj =
     (case replay_from xs obj of Inl e \<Rightarrow> Inl e | Inr ob \<Rightarrow> replay_from ys ob)"
  by (induction xs arbitrary: obj) (auto split: mres.splits)

lemma trigger_step_replays:
  assumes "kind_of ec \<noteq> Discarded"
    and "trigger_event H now self ec kwargs pubs = (Inr u, self', pubs')"
  shows "\<exists>ev. pubs' = pubs @ [ev] \<and> event_mutate ev (Some self) = Returned self'"
proof -
  from assms(2) have t: "trigger_event_arg H now self (Class ec) kwargs pubs = (Inr u, self', pubs')"
    by (simp add: trigger_event_def)
  from trigger_success [OF t] obtain kwargs' where
    b: "DomainEntity_trigger_event H now self (Class ec) kwargs' pubs = (Inr u, self', pubs')"
    by blast
  from base_trigger_success [OF b] obtain i ev where
    ne: "new_event H now ec ((''originator_id'', i) # kwargs') = Inr ev"
    and em: "entity_mutate self ev = (Inr (), self')"
    and pb: "publish H self' ev pubs = (Inr (), pubs')" by auto
  have ty: "ev_type ev = ec" using new_event_type [OF ne] .
  from entity_mutate_success [OF em] Discarded_keeps_timestamps [of ev self] ty assms(1)
  have "event_mutate ev (Some self) = Returned self'" by auto
  with publish_appends [OF pb] show ?thesis by blast
qed

lemma trigger_all_replays:
  assumes "list_all (\<lambda>c. case c of Trigger ec kw t \<Rightarrow> kind_of ec \<noteq> Discarded) calls"
    and "trigger_all H calls self pubs = (Inr u, self', pubs')"
  shows "\<exists>evs. pubs' = pubs @ evs \<and> replay_from evs (Some self) = Inr (Some self')"
  using assms
proof (induction calls arbitrary: self pubs)
  case Nil
  then show ?case by simp
next
  case (Cons c calls)
  obtain ec kw t where c: "c = Trigger ec kw t" by (cases c) auto
  from Cons.prems(2) c obtain s1 p1 where
    s1: "trigger_event H t self ec kw pubs = (Inr (), s1, p1)"
    and rest: "trigger_all H calls s1 p1 = (Inr u, self', pubs')"
    by (auto split: prod.splits sum.splits)
  have ok: "kind_of ec \<noteq> Discarded"
    and oks: "list_all (\<lambda>c. case c of Trigger ec kw t \<Rightarrow> kind_of ec \<noteq> Discarded) calls"
    using Cons.prems(1) c by auto
  from trigger_step_replays [OF ok s1] obtain ev where
    ev: "p1 = pubs @ [ev]" "event_mutate ev (Some self) = Returned s1" by blast
  from Cons.IH [OF oks rest] obtain evs where
    evs: "pubs' = p1 @ evs" "replay_from evs (Some s1) = Inr (Some self')" by blast
  have "pubs' = pubs @ (ev # evs)" using ev(1) evs(1) by simp
  moreover have "replay_from (ev # evs) (Some self) = Inr (Some self')"
    using ev(2) evs(2) by simp
  ultimately show ?case by blast
qed


text \<open>
  A trigger of a \<^verbatim>\<open>Discarded\<close> event that returns published an event whose mutation
  returns \<^verbatim>\<open>None\<close>.
\<close>

lemma discard_step_replays:
  assumes "kind_of ec = Discarded"
    and "trigger_event H now self ec kwargs pubs = (Inr u, self', pubs')"
  shows "\<exists>ev t. pubs' = pubs @ [ev] \<and> event_mutate ev (Some self) = Returned_None t"
proof -
  from assms(2) have t: "trigger_event_arg H now self (Class ec) kwargs pubs = (Inr u, self', pubs')"
    by (simp add: trigger_event_def)
  from trigger_success [OF t] obtain kwargs' where
    b: "DomainEntity_trigger_event H now self (Class ec) kwargs' pubs = (Inr u, self', pubs')"
    by blast
  from base_trigger_success [OF b] obtain i ev where
    ne: "new_event H now ec ((''originator_id'', i) # kwargs') = Inr ev"
    and em: "entity_mutate self ev = (Inr (), self')"
    and pb: "publish H self' ev pubs = (Inr (), pubs')" by auto
  have ty: "kind_of (ev_type ev) = Discarded" using new_event_type [OF ne] assms(1) by simp
  from entity_mutate_success [OF em] Discarded_returns_no_object [OF ty, of "Some self" self']
  have "\<exists>t. event_mutate ev (Some self) = Returned_None t" by auto
  with publish_appends [OF pb] show ?thesis by blast
qed

section \<open>Replay convergence (C2)\<close>

text \<open>
  C2, as stated, covers every history that successful calls produce, and every entity as
  it stood after the calls. Two runs of the code say otherwise. \<^verbatim>\<open>__discard__\<close> is a
  successful call, and the mutation of a \<^verbatim>\<open>Discarded\<close> event returns \<^verbatim>\<open>None\<close>: replaying
  the history of an entity that was created and then discarded gives no entity, while the
  entity that was mutated as the events were triggered stands, with its flag set. And a
  call that raises may have mutated the entity before it raised, with nothing published:
  triggered on a \<^verbatim>\<open>DomainEntity\<close>, a \<^verbatim>\<open>TimestampedEntity.AttributeChanged\<close> event sets the
  attribute, then the assertion of \<^verbatim>\<open>TimestampedEntity.Event.__mutate__\<close> fails; the
  history is still the \<^verbatim>\<open>Created\<close> event alone, and its replay has no such attribute.
\<close>

theorem replay_differs_from_live_entity:
  "create quiet VNone (VUUID 1) DomainEntity VNone None [] []
   = (Inr \<lparr>ent_type = DomainEntity,
           ent_dict = [(''_id'', VUUID 1), (''__is_discarded__'', VBool False)]\<rparr>,
      [\<lparr>ev_type = EventClass DomainEntity Created,
        ev_dict = [(''originator_id'', VUUID 1),
                   (''originator_topic'',
                    VStr ''eventsourcing.domain.model.entity#DomainEntity'')]\<rparr>])
   \<and> trigger_all quiet [Trigger (EventClass DomainEntity Discarded) [] VNone]
       \<lparr>ent_type = DomainEntity,
        ent_dict = [(''_id'', VUUID 1), (''__is_discarded__'', VBool False)]\<rparr>
       [\<lparr>ev_type = EventClass DomainEntity Created,
         ev_dict = [(''originator_id'', VUUID 1),
                    (''originator_topic'',
                     VStr ''eventsourcing.domain.model.entity#DomainEntity'')]\<rparr>]
     = (Inr (),
        \<lparr>ent_type = DomainEntity,
         ent_dict = [(''_id'', VUUID 1), (''__is_discarded__'', VBool True)]\<rparr>,
        [\<lparr>ev_type = EventClass DomainEntity Created,
          ev_dict = [(''originator_id'', VUUID 1),
                     (''originator_topic'',
                      VStr ''eventsourcing.domain.model.entity#DomainEntity'')]\<rparr>,
         \<lparr>ev_type = EventClass DomainEntity Discarded,
          ev_dict = [(''originator_id'', VUUID 1)]\<rparr>])
   \<and> replay
       [\<lparr>ev_type = EventClass DomainEntity Created,
         ev_dict = [(''originator_id'', VUUID 1),
                    (''originator_topic'',
                     VStr ''eventsourcing.domain.model.entity#DomainEntity'')]\<rparr>,
        \<lparr>ev_type = EventClass DomainEntity Discarded,
         ev_dict = [(''originator_id'', VUUID 1)]\<rparr>]
     = Inr None
   \<and> trigger_event quiet (VDec 5)
       \<lparr>ent_type = DomainEntity,
        ent_dict = [(''_id'', VUUID 1), (''__is_discarded__'', VBool False)]\<rparr>
       (EventClass TimestampedEntity AttributeChanged)
       [(''name'', VStr ''a''), (''value'', VInt 7)]
       [\<lparr>ev_type = EventClass DomainEntity Created,
         ev_dict = [(''originator_id'', VUUID 1),
                    (''originator_topic'',
                     VStr ''eventsourcing.domain.model.entity#DomainEntity'')]\<rparr>]
     = (Inl AssertionError,
        \<lparr>ent_type = DomainEntity,
         ent_dict = [(''_id'', VUUID 1), (''__is_discarded__'', VBool False),
                     (''a'', VInt 7)]\<rparr>,
        [\<lparr>ev_type = EventClass DomainEntity Created,
          ev_dict = [(''originator_id'', VUUID 1),
                     (''originator_topic'',
                      VStr ''eventsourcing.domain.model.entity#DomainEntity'')]\<rparr>])
   \<and> replay
       [\<lparr>ev_type = EventClass DomainEntity Created,
         ev_dict = [(''originator_id'', VUUID 1),
                    (''originator_topic'',
                     VStr ''eventsourcing.domain.model.entity#DomainEntity'')]\<rparr>]
     = Inr (Some \<lparr>ent_type = DomainEntity,
                  ent_dict = [(''_id'', VUUID 1), (''__is_discarded__'', VBool False)]\<rparr>)
   \<and> \<not> entity_eq
         \<lparr>ent_type = DomainEntity,
          ent_dict = [(''_id'', VUUID 1), (''__is_discarded__'', VBool False)]\<rparr>
         \<lparr>ent_type = DomainEntity,
          ent_dict = [(''_id'', VUUID 1), (''__is_discarded__'', VBool False),
                      (''a'', VInt 7)]\<rparr>"
  by (simp add: eval_defs replay_def Discarded_mutate_Some [of _ DomainEntity]
        event_mutate_def [of _ None] entity_eq_def dict_eq_def)

text \<open>
  C2, amended. For every entity class and every run of a \<^verbatim>\<open>__create__\<close> that returned
  and then calls of \<^verbatim>\<open>__trigger_event__\<close> on the entity, each of an event of a kind
  other than \<^verbatim>\<open>Discarded\<close> and every one of which returned (the run has no call that
  raised), replaying the history the run published (the \<^verbatim>\<open>Created\<close> event applied to
  \<^verbatim>\<open>None\<close>, each later event to what the one before returned) returns an entity that is
  equal, by \<^verbatim>\<open>__eq__\<close>, to the entity as it stood after the calls. When a trigger of a
  \<^verbatim>\<open>Discarded\<close> event then returns, the history with that event at its end replays to
  no entity.
\<close>

theorem replay_converges:
  assumes "create H now uuid4 cls oid eco kwargs pubs0 = (Inr ob, pubs1)"
    and "list_all (\<lambda>c. case c of Trigger ec kw t \<Rightarrow> kind_of ec \<noteq> Discarded) calls"
    and "trigger_all H calls ob pubs1 = (Inr u, ob', pubs2)"
  shows "(\<exists>r. replay (drop (length pubs0) pubs2) = Inr (Some r) \<and> entity_eq r ob')
       \<and> (\<forall>H2 now2 ec kw u2 ob2 pubs3.
             kind_of ec = Discarded
             \<and> trigger_event H2 now2 ob' ec kw pubs2 = (Inr u2, ob2, pubs3)
             \<longrightarrow> replay (drop (length pubs0) pubs3) = Inr None)"
proof -
  from create_success [OF assms(1)] obtain ev0 where
    ev0: "pubs1 = pubs0 @ [ev0]" "event_mutate ev0 None = Returned ob" by blast
  from trigger_all_replays [OF assms(2,3)] obtain evs where
    evs: "pubs2 = pubs1 @ evs" "replay_from evs (Some ob) = Inr (Some ob')" by blast
  have d: "drop (length pubs0) pubs2 = [ev0] @ evs" using ev0(1) evs(1) by simp
  then have r: "replay (drop (length pubs0) pubs2) = Inr (Some ob')"
    using ev0(2) evs(2) by (simp add: replay_def)
  have "replay (drop (length pubs0) pubs3) = Inr None"
    if k: "kind_of ec = Discarded"
      and t: "trigger_event H2 now2 ob' ec kw pubs2 = (Inr u2, ob2, pubs3)"
    for H2 now2 ec kw u2 ob2 pubs3
  proof -
    from discard_step_replays [OF k t] obtain ev t' where
      ev: "pubs3 = pubs2 @ [ev]" "event_mutate ev (Some ob') = Returned_None t'" by blast
    have "drop (length pubs0) pubs3 = drop (length pubs0) pubs2 @ [ev]"
      using ev(1) ev0(1) evs(1) by simp
    then show ?thesis using r ev(2) by (simp add: replay_def replay_from_append)
  qed
  with r entity_eq_refl show ?thesis by blast
qed



lemma replay_create_example:
  "create quiet VNone (VUUID 3) DomainEntity VNone None [] []
   = (Inr \<lparr>ent_type = DomainEntity,
           ent_dict = [(''_id'', VUUID 3), (''__is_discarded__'', VBool False)]\<rparr>,
      [\<lparr>ev_type = EventClass DomainEntity Created,
        ev_dict = [(''originator_id'', VUUID 3),
                   (''originator_topic'',
                    VStr ''eventsourcing.domain.model.entity#DomainEntity'')]\<rparr>])"
  by (simp add: eval_defs event_mutate_def)

lemma replay_trigger_example:
  "trigger_all quiet
     [Trigger (EventClass DomainEntity AttributeChanged)
        [(''name'', VStr ''a''), (''value'', VInt 7)] VNone]
     \<lparr>ent_type = DomainEntity,
      ent_dict = [(''_id'', VUUID 3), (''__is_discarded__'', VBool False)]\<rparr>
     [\<lparr>ev_type = EventClass DomainEntity Created,
       ev_dict = [(''originator_id'', VUUID 3),
                  (''originator_topic'',
                   VStr ''eventsourcing.domain.model.entity#DomainEntity'')]\<rparr>]
   = (Inr (),
      \<lparr>ent_type = DomainEntity,
       ent_dict = [(''_id'', VUUID 3), (''__is_discarded__'', VBool False), (''a'', VInt 7)]\<rparr>,
      [\<lparr>ev_type = EventClass DomainEntity Created,
        ev_dict = [(''originator_id'', VUUID 3),
                   (''originator_topic'',
                    VStr ''eventsourcing.domain.model.entity#DomainEntity'')]\<rparr>,
       \<lparr>ev_type = EventClass DomainEntity AttributeChanged,
        ev_dict = [(''originator_id'', VUUID 3), (''name'', VStr ''a''),
                   (''value'', VInt 7)]\<rparr>])"
  by (simp add: eval_defs)


lemma replay_discard_example:
  "trigger_event quiet VNone
     \<lparr>ent_type = DomainEntity,
      ent_dict = [(''_id'', VUUID 3), (''__is_discarded__'', VBool False), (''a'', VInt 7)]\<rparr>
     (EventClass DomainEntity Discarded) []
     [\<lparr>ev_type = EventClass DomainEntity Created,
       ev_dict = [(''originator_id'', VUUID 3),
                  (''originator_topic'',
                   VStr ''eventsourcing.domain.model.entity#DomainEntity'')]\<rparr>,
      \<lparr>ev_type = EventClass DomainEntity AttributeChanged,
       ev_dict = [(''originator_id'', VUUID 3), (''name'', VStr ''a''),
                  (''value'', VInt 7)]\<rparr>]
   = (Inr (),
      \<lparr>ent_type = DomainEntity,
       ent_dict = [(''_id'', VUUID 3), (''__is_discarded__'', VBool True), (''a'', VInt 7)]\<rparr>,
      [\<lparr>ev_type = EventClass DomainEntity Created,
        ev_dict = [(''originator_id'', VUUID 3),
                   (''originator_topic'',
                    VStr ''eventsourcing.domain.model.entity#DomainEntity'')]\<rparr>,
       \<lparr>ev_type = EventClass DomainEntity AttributeChanged,
        ev_dict = [(''originator_id'', VUUID 3), (''name'', VStr ''a''),
                   (''value'', VInt 7)]\<rparr>,
       \<lparr>ev_type = EventClass DomainEntity Discarded,
        ev_dict = [(''originator_id'', VUUID 3)]\<rparr>])"
  by (simp add: eval_defs Discarded_mutate_Some [of _ DomainEntity])

theorem replay_converges_witness:
  "(\<exists>r. replay
         [\<lparr>ev_type = EventClass DomainEntity Created,
           ev_dict = [(''originator_id'', VUUID 3),
                      (''originator_topic'',
                       VStr ''eventsourcing.domain.model.entity#DomainEntity'')]\<rparr>,
          \<lparr>ev_type = EventClass DomainEntity AttributeChanged,
           ev_dict = [(''originator_id'', VUUID 3), (''name'', VStr ''a''),
                      (''value'', VInt 7)]\<rparr>] = Inr (Some r)
       \<and> entity_eq r
           \<lparr>ent_type = DomainEntity,
            ent_dict = [(''_id'', VUUID 3), (''__is_discarded__'', VBool False),
                        (''a'', VInt 7)]\<rparr>)
   \<and> replay
         [\<lparr>ev_type = EventClass DomainEntity Created,
           ev_dict = [(''originator_id'', VUUID 3),
                      (''originator_topic'',
                       VStr ''eventsourcing.domain.model.entity#DomainEntity'')]\<rparr>,
          \<lparr>ev_type = EventClass DomainEntity AttributeChanged,
           ev_dict = [(''originator_id'', VUUID 3), (''name'', VStr ''a''),
                      (''value'', VInt 7)]\<rparr>,
          \<lparr>ev_type = EventClass DomainEntity Discarded,
           ev_dict = [(''originator_id'', VUUID 3)]\<rparr>] = Inr None"
proof -
  have l: "list_all (\<lambda>c. case c of Trigger ec kw t \<Rightarrow> kind_of ec \<noteq> Discarded)
             [Trigger (EventClass DomainEntity AttributeChanged)
                [(''name'', VStr ''a''), (''value'', VInt 7)] VNone]"
    by simp
  have k: "kind_of (EventClass DomainEntity Discarded) = Discarded" by simp
  note t = replay_converges [OF replay_create_example l replay_trigger_example]
  from t [THEN conjunct2, rule_format, OF conjI [OF k replay_discard_example]]
  have "replay
         [\<lparr>ev_type = EventClass DomainEntity Created,
           ev_dict = [(''originator_id'', VUUID 3),
                      (''originator_topic'',
                       VStr ''eventsourcing.domain.model.entity#DomainEntity'')]\<rparr>,
          \<lparr>ev_type = EventClass DomainEntity AttributeChanged,
           ev_dict = [(''originator_id'', VUUID 3), (''name'', VStr ''a''),
                      (''value'', VInt 7)]\<rparr>,
          \<lparr>ev_type = EventClass DomainEntity Discarded,
           ev_dict = [(''originator_id'', VUUID 3)]\<rparr>] = Inr None"
    by simp
  with t [THEN conjunct1] show ?thesis by simp
qed

end
